theory Spec2Isabelle
  imports Complex_Main
begin

section \<open>Strings and identities\<close>

text \<open>
  A JavaScript string is a sequence of UTF-16 code units. Message text, names and
  credentials are modelled as lists of code units (\<open>jsstring\<close>), so that the character
  classes of the source's regular expressions (\<open>\s\<close>, the bullet U+2022) keep their
  meaning. Identities, map keys, status words and timestamps are ASCII and are written
  as HOL strings. \<open>js\<close> reads an ASCII literal as code units.
\<close>

type_synonym jsstring = "nat list"

definition js :: "string \<Rightarrow> jsstring" where
  "js s = map of_char s"

text \<open>
  \<open>Number.prototype.toString\<close> on the integer ids Telegram delivers: decimal digits,
  with a leading minus sign for negative ids (group chats).
\<close>

fun digitsOf :: "nat \<Rightarrow> string" where
  "digitsOf n = (if n < 10 then [''0123456789'' ! n]
                 else digitsOf (n div 10) @ [''0123456789'' ! (n mod 10)])"

declare digitsOf.simps [simp del]

definition toString :: "int \<Rightarrow> string" where
  "toString i = (if i < 0 then CHR ''-'' # digitsOf (nat (- i)) else digitsOf (nat i))"

section \<open>Authorization gate (class AuthManager)\<close>

text \<open>
  An incoming Telegram message, with the fields the handlers read: \<open>msg.from.id\<close>,
  \<open>msg.from.first_name\<close>, \<open>msg.from.username\<close>, \<open>msg.chat.id\<close>, \<open>msg.chat.type\<close>,
  \<open>msg.chat.title\<close>, \<open>msg.text\<close> and whether \<open>msg.entities\<close> is present. An absent or
  empty name is the empty list (both are falsy in the source).
\<close>

record message =
  from_id :: int
  from_first_name :: jsstring
  from_username :: jsstring
  chat_id :: int
  chat_type :: string
  chat_title :: jsstring
  msg_text :: "jsstring option"
  has_entities :: bool

definition isGroupChat :: "message \<Rightarrow> bool" where
  "isGroupChat msg = (chat_type msg = ''group'' \<or> chat_type msg = ''supergroup'')"

record access_request =
  userId :: string
  userName :: jsstring
  chatId :: string
  chatTitle :: jsstring
  rtype :: string
  timestamp :: string
  status :: string

text \<open>The document of \<open>data/authorized.json\<close>.\<close>

record auth_doc =
  users :: "string list"
  groups :: "string list"
  pendingRequests :: "access_request list"

text \<open>
  The manager: \<open>this.adminIds\<close>, the in-memory document \<open>this.authorized\<close>, and the file
  it is loaded from and saved to. The file is a document store: a write replaces the
  document and a read returns the document last written. \<open>authFile = None\<close> is a file
  that is absent or does not parse: \<open>loadAuthorized\<close> then logs the error and keeps the
  in-memory document.
\<close>

record auth_manager =
  adminIds :: "string list"
  authorized :: auth_doc
  authFile :: "auth_doc option"

definition pushMissing :: "string list \<Rightarrow> string list \<Rightarrow> string list" where
  "pushMissing ids us = fold (\<lambda>a acc. if a \<in> set acc then acc else acc @ [a]) ids us"

definition loadAuthorized :: "auth_manager \<Rightarrow> auth_manager" where
  "loadAuthorized am =
     (case authFile am of
        None \<Rightarrow> am
      | Some doc \<Rightarrow> am\<lparr>authorized := doc\<lparr>users := pushMissing (adminIds am) (users doc)\<rparr>\<rparr>)"

definition saveAuthorized :: "auth_manager \<Rightarrow> auth_manager" where
  "saveAuthorized am = am\<lparr>authFile := Some (authorized am)\<rparr>"

text \<open>The constructor followed by \<open>init\<close>, on a data directory holding \<open>file\<close>.\<close>

definition newAuthManager :: "string list \<Rightarrow> auth_doc option \<Rightarrow> auth_manager" where
  "newAuthManager admins file =
     (let am = \<lparr>adminIds = admins,
                authorized = \<lparr>users = [], groups = [], pendingRequests = []\<rparr>,
                authFile = file\<rparr>
      in case file of
           Some _ \<Rightarrow> loadAuthorized am
         | None \<Rightarrow> saveAuthorized (am\<lparr>authorized := (authorized am)\<lparr>users := admins\<rparr>\<rparr>))"

definition isAdmin :: "auth_manager \<Rightarrow> string \<Rightarrow> bool" where
  "isAdmin am uid = (uid \<in> set (adminIds am))"

definition isAuthorizedUser :: "auth_manager \<Rightarrow> string \<Rightarrow> bool \<times> auth_manager" where
  "isAuthorizedUser am uid =
     (let am1 = loadAuthorized am in (uid \<in> set (users (authorized am1)), am1))"

definition isAuthorizedGroup :: "auth_manager \<Rightarrow> string \<Rightarrow> bool \<times> auth_manager" where
  "isAuthorizedGroup am gid =
     (let am1 = loadAuthorized am in (gid \<in> set (groups (authorized am1)), am1))"

definition isAuthorized :: "auth_manager \<Rightarrow> message \<Rightarrow> bool \<times> auth_manager" where
  "isAuthorized am msg =
     (let uid = toString (from_id msg);
          cid = toString (chat_id msg);
          isGroup = isGroupChat msg
      in if isAdmin am uid then (True, am)
         else if isGroup then isAuthorizedGroup am cid
         else isAuthorizedUser am uid)"

definition authorizeUser :: "auth_manager \<Rightarrow> string \<Rightarrow> bool \<times> auth_manager" where
  "authorizeUser am uid =
     (let am1 = loadAuthorized am; doc = authorized am1
      in if uid \<notin> set (users doc)
         then (True, saveAuthorized (am1\<lparr>authorized := doc\<lparr>users := users doc @ [uid]\<rparr>\<rparr>))
         else (False, am1))"

definition unauthorizeUser :: "auth_manager \<Rightarrow> string \<Rightarrow> bool \<times> auth_manager" where
  "unauthorizeUser am uid =
     (let am1 = loadAuthorized am; doc = authorized am1
      in if isAdmin am1 uid then (False, am1)
         else if uid \<in> set (users doc)
         then (True, saveAuthorized (am1\<lparr>authorized := doc\<lparr>users := remove1 uid (users doc)\<rparr>\<rparr>))
         else (False, am1))"

definition authorizeGroup :: "auth_manager \<Rightarrow> string \<Rightarrow> bool \<times> auth_manager" where
  "authorizeGroup am gid =
     (let am1 = loadAuthorized am; doc = authorized am1
      in if gid \<notin> set (groups doc)
         then (True, saveAuthorized (am1\<lparr>authorized := doc\<lparr>groups := groups doc @ [gid]\<rparr>\<rparr>))
         else (False, am1))"

definition unauthorizeGroup :: "auth_manager \<Rightarrow> string \<Rightarrow> bool \<times> auth_manager" where
  "unauthorizeGroup am gid =
     (let am1 = loadAuthorized am; doc = authorized am1
      in if gid \<in> set (groups doc)
         then (True, saveAuthorized (am1\<lparr>authorized := doc\<lparr>groups := remove1 gid (groups doc)\<rparr>\<rparr>))
         else (False, am1))"

text \<open>
  \<open>addAccessRequest\<close>: the ids arrive already converted by \<open>toString\<close>; \<open>now\<close> is the
  value of \<open>new Date().toISOString()\<close>. The result \<open>None\<close> is the source's \<open>null\<close>.
\<close>

definition samePair :: "string \<Rightarrow> string \<Rightarrow> access_request \<Rightarrow> bool" where
  "samePair uid cid req = (userId req = uid \<and> chatId req = cid)"

definition addAccessRequest ::
  "auth_manager \<Rightarrow> string \<Rightarrow> jsstring \<Rightarrow> string \<Rightarrow> jsstring \<Rightarrow> string \<Rightarrow> string
     \<Rightarrow> access_request option \<times> auth_manager" where
  "addAccessRequest am uid uname cid ctitle ty now =
     (let am1 = loadAuthorized am; doc = authorized am1;
          request = \<lparr>userId = uid, userName = uname, chatId = cid, chatTitle = ctitle,
                     rtype = ty, timestamp = now, status = ''pending''\<rparr>;
          exists = list_ex (samePair (userId request) (chatId request)) (pendingRequests doc)
      in if \<not> exists
         then (Some request,
               saveAuthorized (am1\<lparr>authorized := doc\<lparr>pendingRequests := pendingRequests doc @ [request]\<rparr>\<rparr>))
         else (None, am1))"

definition getPendingRequests :: "auth_manager \<Rightarrow> access_request list \<times> auth_manager" where
  "getPendingRequests am =
     (let am1 = loadAuthorized am
      in (filter (\<lambda>req. status req = ''pending'') (pendingRequests (authorized am1)), am1))"

text \<open>
  \<open>rejectRequest\<close> writes the status into the request object of the document it has just
  loaded, and saves that document.
\<close>

definition rejectRequest :: "auth_manager \<Rightarrow> int \<Rightarrow> access_request option \<times> auth_manager" where
  "rejectRequest am i =
     (let am1 = loadAuthorized am; doc = authorized am1; reqs = pendingRequests doc
      in if 0 \<le> i \<and> i < int (length reqs)
         then (let request = (reqs ! nat i)\<lparr>status := ''rejected''\<rparr>
               in (Some request,
                   saveAuthorized (am1\<lparr>authorized := doc\<lparr>pendingRequests := reqs[nat i := request]\<rparr>\<rparr>)))
         else (None, am1))"

text \<open>
  \<open>approveRequest\<close> takes the request object from the document it loaded, then calls
  \<open>authorizeGroup\<close> or \<open>authorizeUser\<close>, which load again. When the file is readable
  that second load replaces \<open>this.authorized\<close> by a freshly parsed document, so the
  assignment \<open>request.status = 'approved'\<close> lands in the object of the earlier document:
  the caller gets the approved request back, and the document saved afterwards keeps
  the stored status. When the file is unreadable no load replaces the document and the
  assignment is saved.
\<close>

definition approveRequest :: "auth_manager \<Rightarrow> int \<Rightarrow> access_request option \<times> auth_manager" where
  "approveRequest am i =
     (let am1 = loadAuthorized am; reqs = pendingRequests (authorized am1)
      in if 0 \<le> i \<and> i < int (length reqs)
         then (let request = reqs ! nat i;
                   am2 = (if rtype request = ''group''
                          then snd (authorizeGroup am1 (chatId request))
                          else snd (authorizeUser am1 (userId request)));
                   approved = request\<lparr>status := ''approved''\<rparr>;
                   doc2 = authorized am2;
                   am3 = (if authFile am1 = None
                          then am2\<lparr>authorized := doc2\<lparr>pendingRequests := (pendingRequests doc2)[nat i := approved]\<rparr>\<rparr>
                          else am2)
               in (Some approved, saveAuthorized am3))
         else (None, am1))"

definition clearPendingRequests :: "auth_manager \<Rightarrow> auth_manager" where
  "clearPendingRequests am =
     (let am1 = loadAuthorized am; doc = authorized am1
      in saveAuthorized (am1\<lparr>authorized := doc\<lparr>pendingRequests :=
            filter (\<lambda>req. status req = ''pending'') (pendingRequests doc)\<rparr>\<rparr>))"

definition importAuthorizedList :: "auth_manager \<Rightarrow> string list \<Rightarrow> string list \<Rightarrow> auth_manager" where
  "importAuthorizedList am us gs =
     (let am1 = loadAuthorized am; doc = authorized am1
      in saveAuthorized (am1\<lparr>authorized := doc\<lparr>users := pushMissing us (users doc),
                                                groups := pushMissing gs (groups doc)\<rparr>\<rparr>))"

section \<open>Connection supervisor (class ConnectionManager)\<close>

text \<open>
  \<open>reconnectDelay\<close> is a JavaScript number multiplied by 1.5; it is kept as a rational,
  which is exact for every value the supervisor computes from 5000. Timestamps are
  milliseconds since the epoch.
\<close>

record connection_manager =
  isConnected :: bool
  reconnectAttempts :: int
  maxReconnectAttempts :: int
  reconnectDelay :: rat
  lastSuccessfulConnection :: "int option"

definition newConnectionManager :: connection_manager where
  "newConnectionManager =
     \<lparr>isConnected = False, reconnectAttempts = 0, maxReconnectAttempts = 10,
      reconnectDelay = 5000, lastSuccessfulConnection = None\<rparr>"

text \<open>
  What a call does to the outside: calls of the transport, the wait between them, and
  the \<open>setTimeout\<close> that schedules another \<open>handleDisconnection\<close>.
\<close>

datatype conn_effect = StopPolling | Sleep rat | StartPolling | ScheduleRetry rat

text \<open>How the \<open>try\<close> block of \<open>handleDisconnection\<close> ends.\<close>

datatype restart_outcome = StopThrows | StartThrows | Restarted

definition handleDisconnection ::
  "connection_manager \<Rightarrow> restart_outcome \<Rightarrow> connection_manager \<times> conn_effect list" where
  "handleDisconnection cm out =
     (if reconnectAttempts cm \<ge> maxReconnectAttempts cm then (cm, [])
      else
        (let cm1 = cm\<lparr>reconnectAttempts := reconnectAttempts cm + 1\<rparr>;
             d = min (reconnectDelay cm1 * (3 / 2)) 60000
         in case out of
              Restarted \<Rightarrow>
                (cm1\<lparr>isConnected := True, reconnectAttempts := 0, reconnectDelay := 5000\<rparr>,
                 [StopPolling, Sleep (reconnectDelay cm1), StartPolling])
            | StopThrows \<Rightarrow>
                (cm1\<lparr>reconnectDelay := d\<rparr>, [StopPolling, ScheduleRetry d])
            | StartThrows \<Rightarrow>
                (cm1\<lparr>reconnectDelay := d\<rparr>,
                 [StopPolling, Sleep (reconnectDelay cm1), StartPolling, ScheduleRetry d])))"

text \<open>
  One run of the interval callback of \<open>startHealthCheck\<close>: \<open>getMe\<close> resolves to a
  truthy value, resolves to a falsy one, or throws.
\<close>

datatype probe = ProbeOk | ProbeFalsy | ProbeThrows

definition healthCheck ::
  "connection_manager \<Rightarrow> int \<Rightarrow> probe \<Rightarrow> restart_outcome \<Rightarrow> connection_manager \<times> conn_effect list" where
  "healthCheck cm now p out =
     (case p of
        ProbeOk \<Rightarrow>
          (cm\<lparr>isConnected := True, lastSuccessfulConnection := Some now,
              reconnectAttempts := 0, reconnectDelay := 5000\<rparr>, [])
      | ProbeFalsy \<Rightarrow> (cm, [])
      | ProbeThrows \<Rightarrow> handleDisconnection (cm\<lparr>isConnected := False\<rparr>) out)"

record conn_status =
  st_isConnected :: bool
  st_reconnectAttempts :: int
  st_lastSuccessfulConnection :: "int option"
  st_uptime :: int

definition getStatus :: "connection_manager \<Rightarrow> int \<Rightarrow> conn_status" where
  "getStatus cm now =
     \<lparr>st_isConnected = isConnected cm,
      st_reconnectAttempts = reconnectAttempts cm,
      st_lastSuccessfulConnection = lastSuccessfulConnection cm,
      st_uptime = (case lastSuccessfulConnection cm of
                     Some t \<Rightarrow> (now - t) div 1000
                   | None \<Rightarrow> 0)\<rparr>"

text \<open>
  The supervisor over time: the manager, the retry timers that are scheduled and have
  not fired, and every effect so far. An event is a run of the health check or the
  firing of the \<open>k\<close>-th scheduled retry timer.
\<close>

record supervisor =
  manager :: connection_manager
  pendingRetries :: "rat list"
  effects :: "conn_effect list"

datatype conn_event = HealthTick int probe restart_outcome | RetryTimer nat restart_outcome

definition scheduled :: "conn_effect list \<Rightarrow> rat list" where
  "scheduled es = concat (map (\<lambda>e. case e of ScheduleRetry d \<Rightarrow> [d] | _ \<Rightarrow> []) es)"

definition dropNth :: "nat \<Rightarrow> 'a list \<Rightarrow> 'a list" where
  "dropNth k xs = take k xs @ drop (Suc k) xs"

fun superviseStep :: "conn_event \<Rightarrow> supervisor \<Rightarrow> supervisor" where
  "superviseStep (HealthTick now p out) sv =
     (let (cm, es) = healthCheck (manager sv) now p out
      in \<lparr>manager = cm, pendingRetries = pendingRetries sv @ scheduled es,
          effects = effects sv @ es\<rparr>)"
| "superviseStep (RetryTimer k out) sv =
     (if k < length (pendingRetries sv)
      then (let (cm, es) = handleDisconnection (manager sv) out
            in \<lparr>manager = cm, pendingRetries = dropNth k (pendingRetries sv) @ scheduled es,
                effects = effects sv @ es\<rparr>)
      else sv)"

definition newSupervisor :: supervisor where
  "newSupervisor = \<lparr>manager = newConnectionManager, pendingRetries = [], effects = []\<rparr>"

definition reconnects :: "conn_effect list \<Rightarrow> nat" where
  "reconnects es = length (filter (\<lambda>e. e = StopPolling) es)"

section \<open>Regular expressions of the source\<close>

text \<open>
  The source's regular expressions are written in a small abstract syntax and run by a
  backtracking matcher that follows the order of ECMAScript: a quantifier is greedy, its
  alternatives are tried longest first, and an iteration of \<open>*\<close> that consumes nothing
  is not taken. \<open>matches r s\<close> lists, in that order, what is left of \<open>s\<close> after each way
  of matching \<open>r\<close> at the start of \<open>s\<close>.
\<close>

datatype re = Eps | Lit "nat \<Rightarrow> bool" | Seq re re | Opt re | Star re

function matches :: "re \<Rightarrow> jsstring \<Rightarrow> jsstring list" where
  "matches Eps s = [s]"
| "matches (Lit P) s = (case s of [] \<Rightarrow> [] | c # t \<Rightarrow> if P c then [t] else [])"
| "matches (Seq a b) s = concat (map (matches b) (matches a s))"
| "matches (Opt a) s = matches a s @ [s]"
| "matches (Star a) s =
     concat (map (\<lambda>r. if length r < length s then matches (Star a) r else []) (matches a s)) @ [s]"
  by pat_completeness auto
termination
  by (relation "measures [\<lambda>(r, s). size r, \<lambda>(r, s). length s]") auto

definition Plus :: "re \<Rightarrow> re" where
  "Plus a = Seq a (Star a)"

definition matchAt :: "re \<Rightarrow> jsstring \<Rightarrow> jsstring option" where
  "matchAt r s = (case matches r s of [] \<Rightarrow> None | rest # _ \<Rightarrow> Some rest)"

text \<open>
  A regular expression with the \<open>g\<close> flag run over a string: the matched pieces
  (\<open>Inl\<close>) and the code units between them (\<open>Inr\<close>), left to right. The counter is the
  number of code units still inside the previous match. After an empty match the
  scan moves on by one code unit, as \<open>lastIndex\<close> does.
\<close>

fun scan :: "re \<Rightarrow> nat \<Rightarrow> jsstring \<Rightarrow> (jsstring + nat) list" where
  "scan r k [] = (if k = 0 then (case matchAt r [] of Some _ \<Rightarrow> [Inl []] | None \<Rightarrow> []) else [])"
| "scan r 0 (c # t) =
     (case matchAt r (c # t) of
        None \<Rightarrow> Inr c # scan r 0 t
      | Some rest \<Rightarrow>
          (let n = length (c # t) - length rest
           in Inl (take n (c # t)) # (if n = 0 then Inr c # scan r 0 t else scan r (n - 1) t)))"
| "scan r (Suc k) (c # t) = scan r k t"

text \<open>\<open>str.match(re) || []\<close> for a regular expression with the \<open>g\<close> flag.\<close>

definition matchAll :: "re \<Rightarrow> jsstring \<Rightarrow> jsstring list" where
  "matchAll r s = concat (map (\<lambda>x. case x of Inl m \<Rightarrow> [m] | Inr _ \<Rightarrow> []) (scan r 0 s))"

text \<open>\<open>str.replace(re, rep)\<close> for a regular expression with the \<open>g\<close> flag.\<close>

definition replaceAll :: "re \<Rightarrow> jsstring \<Rightarrow> jsstring \<Rightarrow> jsstring" where
  "replaceAll r rep s = concat (map (\<lambda>x. case x of Inl _ \<Rightarrow> rep | Inr c \<Rightarrow> [c]) (scan r 0 s))"

text \<open>A regular expression that starts with \<open>^\<close> matches at the first position only.\<close>

definition testAtStart :: "re \<Rightarrow> jsstring \<Rightarrow> bool" where
  "testAtStart r s = (matchAt r s \<noteq> None)"

definition replaceAtStart :: "re \<Rightarrow> jsstring \<Rightarrow> jsstring \<Rightarrow> jsstring" where
  "replaceAtStart r rep s = (case matchAt r s of None \<Rightarrow> s | Some rest \<Rightarrow> rep @ rest)"

text \<open>
  \<open>str.match(re)\<close> without the \<open>g\<close> flag, for a regular expression \<open>pre(grp)\<close> that
  ends with its only group: the text of the group in the leftmost match, if any.
\<close>

definition captureAt :: "re \<Rightarrow> re \<Rightarrow> jsstring \<Rightarrow> jsstring option" where
  "captureAt pre grp s =
     (case concat (map (\<lambda>r1. map (\<lambda>r2. take (length r1 - length r2) r1) (matches grp r1))
                       (matches pre s)) of
        [] \<Rightarrow> None
      | c # _ \<Rightarrow> Some c)"

fun searchCapture :: "re \<Rightarrow> re \<Rightarrow> jsstring \<Rightarrow> jsstring option" where
  "searchCapture pre grp [] = captureAt pre grp []"
| "searchCapture pre grp (c # t) =
     (case captureAt pre grp (c # t) of
        Some m \<Rightarrow> Some m
      | None \<Rightarrow> searchCapture pre grp t)"

text \<open>Character classes: \<open>\s\<close> (also what \<open>trim\<close> strips), \<open>\d\<close>, and what \<open>.\<close> excludes.\<close>

definition isSpace :: "nat \<Rightarrow> bool" where
  "isSpace c = (c = 9 \<or> c = 10 \<or> c = 11 \<or> c = 12 \<or> c = 13 \<or> c = 32 \<or> c = 160 \<or> c = 5760
              \<or> (8192 \<le> c \<and> c \<le> 8202) \<or> c = 8232 \<or> c = 8233 \<or> c = 8239 \<or> c = 8287
              \<or> c = 12288 \<or> c = 65279)"

definition isDigit :: "nat \<Rightarrow> bool" where
  "isDigit c = (48 \<le> c \<and> c \<le> 57)"

definition isLineTerminator :: "nat \<Rightarrow> bool" where
  "isLineTerminator c = (c = 10 \<or> c = 13 \<or> c = 8232 \<or> c = 8233)"

definition lit :: "char \<Rightarrow> re" where
  "lit ch = Lit (\<lambda>c. c = of_char ch)"

text \<open>
  A letter of the pattern under the \<open>i\<close> flag (without the \<open>u\<close> flag): it matches its
  two ASCII cases and nothing else.
\<close>

definition litI :: "char \<Rightarrow> re" where
  "litI ch =
     (let n = (of_char ch :: nat)
      in Lit (\<lambda>c. c = n \<or> (65 \<le> n \<and> n \<le> 90 \<and> c = n + 32) \<or> (97 \<le> n \<and> n \<le> 122 \<and> c + 32 = n)))"

definition word :: "string \<Rightarrow> re" where
  "word s = foldr (\<lambda>ch r. Seq (lit ch) r) s Eps"

definition wordI :: "string \<Rightarrow> re" where
  "wordI s = foldr (\<lambda>ch r. Seq (litI ch) r) s Eps"

section \<open>String helpers\<close>

definition trim :: "jsstring \<Rightarrow> jsstring" where
  "trim s = rev (dropWhile isSpace (rev (dropWhile isSpace s)))"

fun splitOn :: "nat \<Rightarrow> jsstring \<Rightarrow> jsstring list" where
  "splitOn sep [] = [[]]"
| "splitOn sep (c # t) =
     (if c = sep then [] # splitOn sep t
      else (case splitOn sep t of
              [] \<Rightarrow> [[c]]
            | h # rest \<Rightarrow> (c # h) # rest))"

fun joinWith :: "jsstring \<Rightarrow> jsstring list \<Rightarrow> jsstring" where
  "joinWith sep [] = []"
| "joinWith sep [x] = x"
| "joinWith sep (x # y # ys) = x @ sep @ joinWith sep (y # ys)"

definition startsWith :: "jsstring \<Rightarrow> jsstring \<Rightarrow> bool" where
  "startsWith s p = (take (length p) s = p)"

text \<open>\<open>str.includes(p)\<close>\<close>

fun includesStr :: "jsstring \<Rightarrow> jsstring \<Rightarrow> bool" where
  "includesStr [] p = (p = [])"
| "includesStr (c # t) p = (startsWith (c # t) p \<or> includesStr t p)"

text \<open>\<open>str.replace(pat, '')\<close> with a string pattern: the first occurrence is removed.\<close>

fun removeFirst :: "jsstring \<Rightarrow> jsstring \<Rightarrow> jsstring" where
  "removeFirst pat [] = []"
| "removeFirst pat (c # t) =
     (if take (length pat) (c # t) = pat then drop (length pat) (c # t)
      else c # removeFirst pat t)"

section \<open>Free-text structuring (extractUrlsFromText)\<close>

text \<open>\<open>/(https?:\/\/[^\s]+)/gi\<close>\<close>

definition urlRegex :: re where
  "urlRegex = Seq (wordI ''http'') (Seq (Opt (litI CHR ''s''))
                (Seq (word ''://'') (Plus (Lit (\<lambda>c. \<not> isSpace c)))))"

text \<open>\<open>/^[-*\<bullet>]\s+/\<close> with the bullet U+2022, and \<open>/^\d+\.\s+/\<close>\<close>

definition bulletMarker :: re where
  "bulletMarker = Seq (Lit (\<lambda>c. c = 45 \<or> c = 42 \<or> c = 8226)) (Plus (Lit isSpace))"

definition numberMarker :: re where
  "numberMarker = Seq (Plus (Lit isDigit)) (Seq (lit CHR ''.'') (Plus (Lit isSpace)))"

record extracted =
  cleanText :: jsstring
  urls :: "jsstring list"
  listItems :: "jsstring list"
  description :: jsstring

text \<open>\<open>urls.forEach(url => { line = line.replace(url, '').trim(); })\<close>\<close>

definition stripUrls :: "jsstring list \<Rightarrow> jsstring \<Rightarrow> jsstring" where
  "stripUrls found line = fold (\<lambda>url l. trim (removeFirst url l)) found line"

text \<open>The body of the loop over the lines after the first.\<close>

definition processLine :: "jsstring \<Rightarrow> jsstring list \<times> jsstring list \<Rightarrow> jsstring list \<times> jsstring list" where
  "processLine line0 acc =
     (let (us, items) = acc;
          lineUrls = matchAll urlRegex line0;
          line = stripUrls lineUrls line0
      in (us @ lineUrls,
          if testAtStart bulletMarker line \<or> testAtStart numberMarker line
          then (let cleanItem = trim (replaceAtStart numberMarker [] (replaceAtStart bulletMarker [] line))
                in if cleanItem \<noteq> [] then items @ [js ''- '' @ cleanItem] else items)
          else if line \<noteq> [] then items @ [js ''- '' @ line]
          else items))"

definition extractUrlsFromText :: "jsstring \<Rightarrow> extracted" where
  "extractUrlsFromText txt =
     (let lines = filter (\<lambda>l. l \<noteq> []) (map trim (splitOn 10 txt));
          (mainTitle1, us, items) =
            (if length lines > 1
             then (let titleUrls = matchAll urlRegex (hd lines);
                       (us, items) = fold processLine (tl lines) (titleUrls, [])
                   in (stripUrls titleUrls (hd lines), us, items))
             else (let titleUrls = matchAll urlRegex txt
                   in (stripUrls titleUrls txt, titleUrls, [])));
          mainTitle = trim (replaceAll (Plus (Lit isSpace)) (js '' '') mainTitle1);
          d1 = (if items \<noteq> [] then js ''Details:'' @ [10] @ joinWith [10] items else []);
          d2 = (if us \<noteq> []
                then (if d1 \<noteq> [] then d1 @ [10, 10] else d1)
                     @ js ''Links:'' @ [10] @ joinWith [10] (map (\<lambda>url. js ''- '' @ url) us)
                else d1)
      in \<lparr>cleanText = (if mainTitle \<noteq> [] then mainTitle else trim (replaceAll urlRegex [] txt)),
          urls = us, listItems = items, description = d2\<rparr>)"

section \<open>Credential resolver (class TokenManager)\<close>

text \<open>
  A record of \<open>tokens.json\<close>. A field that is absent and a field that holds the empty
  string are both falsy in the source and both modelled by the empty list.
\<close>

record token_record =
  token :: jsstring
  apiKey :: jsstring
  workspace :: jsstring
  addedAt :: string
  lastUsed :: string

text \<open>
  The manager: the default pair, the in-memory map \<open>this.tokens\<close> keyed by the chat id
  as a string, the file, and the two methods built on the \<open>crypto\<close> library, which the
  model takes as they come. The file is a document store: a write replaces the document
  and a read returns the document last written; \<open>None\<close> is a file that is absent or does
  not parse, for which \<open>loadTokens\<close> logs the error and empties the map.
\<close>

record token_manager =
  defaultApiKey :: jsstring
  defaultToken :: jsstring
  tokens :: "string \<rightharpoonup> token_record"
  tokensFile :: "(string \<rightharpoonup> token_record) option"
  encrypt :: "jsstring \<Rightarrow> jsstring"
  decrypt :: "jsstring \<Rightarrow> jsstring"

definition loadTokens :: "token_manager \<Rightarrow> token_manager" where
  "loadTokens tm =
     (case tokensFile tm of
        None \<Rightarrow> tm\<lparr>tokens := Map.empty\<rparr>
      | Some encrypted \<Rightarrow>
          tm\<lparr>tokens := (\<lambda>key. case encrypted key of
                               None \<Rightarrow> None
                             | Some v \<Rightarrow>
                                 if token v \<noteq> []
                                 then Some (v\<lparr>token := decrypt tm (token v),
                                             apiKey := (if apiKey v \<noteq> [] then decrypt tm (apiKey v)
                                                        else defaultApiKey tm)\<rparr>)
                                 else None)\<rparr>)"

definition saveTokens :: "token_manager \<Rightarrow> string \<Rightarrow> token_manager" where
  "saveTokens tm now =
     tm\<lparr>tokensFile := Some (\<lambda>key. case tokens tm key of
                                    None \<Rightarrow> None
                                  | Some v \<Rightarrow>
                                      Some (v\<lparr>token := encrypt tm (token v),
                                              apiKey := encrypt tm (if apiKey v \<noteq> [] then apiKey v
                                                                    else defaultApiKey tm),
                                              addedAt := (if addedAt v \<noteq> [] then addedAt v else now)\<rparr>))\<rparr>"

definition setToken ::
  "token_manager \<Rightarrow> int \<Rightarrow> jsstring \<Rightarrow> jsstring \<Rightarrow> jsstring \<Rightarrow> string \<Rightarrow> bool \<times> token_manager" where
  "setToken tm cid tok key ws now =
     (True,
      saveTokens
        (tm\<lparr>tokens := (tokens tm)(toString cid \<mapsto>
              \<lparr>token = tok,
               apiKey = (if key \<noteq> [] then key else defaultApiKey tm),
               workspace = (if ws \<noteq> [] then ws else js ''Unknown Workspace''),
               addedAt = now, lastUsed = now\<rparr>)\<rparr>) now)"

record credentials =
  cred_apiKey :: jsstring
  cred_token :: jsstring
  cred_workspace :: jsstring

definition getToken :: "token_manager \<Rightarrow> int \<Rightarrow> string \<Rightarrow> credentials \<times> token_manager" where
  "getToken tm cid now =
     (let tm1 = loadTokens tm; chatIdStr = toString cid
      in case tokens tm1 chatIdStr of
           Some v \<Rightarrow>
             (let v' = v\<lparr>lastUsed := now\<rparr>;
                  tm2 = saveTokens (tm1\<lparr>tokens := (tokens tm1)(chatIdStr \<mapsto> v')\<rparr>) now
              in (\<lparr>cred_apiKey = (if apiKey v' \<noteq> [] then apiKey v' else defaultApiKey tm),
                   cred_token = token v',
                   cred_workspace = workspace v'\<rparr>, tm2))
         | None \<Rightarrow>
             (\<lparr>cred_apiKey = defaultApiKey tm, cred_token = defaultToken tm,
               cred_workspace = js ''Default Workspace''\<rparr>, tm1))"

definition removeToken :: "token_manager \<Rightarrow> int \<Rightarrow> string \<Rightarrow> bool \<times> token_manager" where
  "removeToken tm cid now =
     (let chatIdStr = toString cid
      in if tokens tm chatIdStr \<noteq> None
         then (True, saveTokens (tm\<lparr>tokens := (tokens tm)(chatIdStr := None)\<rparr>) now)
         else (False, tm))"

definition hasCustomToken :: "token_manager \<Rightarrow> int \<Rightarrow> bool \<times> token_manager" where
  "hasCustomToken tm cid =
     (let tm1 = loadTokens tm in (tokens tm1 (toString cid) \<noteq> None, tm1))"

text \<open>
  The answer of \<open>validateToken\<close>: \<open>{valid: true, username, fullName, email}\<close> or
  \<open>{valid: false, error}\<close>. The round trip to the tracking service is the world's.
\<close>

record validation =
  valid :: bool
  v_username :: jsstring
  v_fullName :: jsstring
  v_email :: jsstring
  v_error :: jsstring

section \<open>Chat configuration (class ConfigManager)\<close>

text \<open>
  The entry of one chat in \<open>config.json\<close>, and the file, a document store like the two
  above; \<open>loadConfig\<close> reads a file that is absent or does not parse as the empty
  document.
\<close>

record chat_config =
  boardId :: "string option"
  defaultListId :: "string option"
  updatedAt :: "string option"

definition noConfig :: chat_config where
  "noConfig = \<lparr>boardId = None, defaultListId = None, updatedAt = None\<rparr>"

type_synonym config_file = "(string \<rightharpoonup> chat_config) option"

definition loadConfig :: "config_file \<Rightarrow> (string \<rightharpoonup> chat_config)" where
  "loadConfig f = (case f of None \<Rightarrow> Map.empty | Some c \<Rightarrow> c)"

definition getChatConfig :: "config_file \<Rightarrow> int \<Rightarrow> chat_config" where
  "getChatConfig f cid = (case loadConfig f (toString cid) of None \<Rightarrow> noConfig | Some c \<Rightarrow> c)"

definition clearChatConfig :: "config_file \<Rightarrow> int \<Rightarrow> config_file" where
  "clearChatConfig f cid = Some ((loadConfig f)(toString cid := None))"

text \<open>\<open>!config.boardId\<close>: an absent and an empty board id are both falsy.\<close>

definition hasBoard :: "chat_config \<Rightarrow> bool" where
  "hasBoard c = (case boardId c of None \<Rightarrow> False | Some b \<Rightarrow> b \<noteq> [])"

section \<open>Conversation sessions (class TrelloAssistantBot)\<close>

record session_data =
  originalUserId :: int
  d_userName :: jsstring
  idea :: "jsstring option"

text \<open>
  A session object: \<open>step\<close>, \<open>type\<close>, \<open>data\<close> (absent in a workspace-setup session) and
  \<open>chatId\<close>.
\<close>

record session =
  step :: string
  stype :: string
  data :: "session_data option"
  s_chatId :: int

record trello_list =
  list_id :: string
  list_name :: jsstring

text \<open>
  The messages the modelled handlers send. The wording of a message is left out; what
  it depends on is kept.
\<close>

datatype outgoing =
    OperationCancelled
  | NoBoardSelected
  | NoListsFound
  | SelectList jsstring "trello_list list"
  | SessionError
  | InvalidFormat
  | InvalidCredentials jsstring nat nat
  | WorkspaceConfigured validation
  | UsingDefaultWorkspace
  | WorkspaceRemoved
  | RemoveFailed
  | IdeaPrompt
  | SetupInstructions

text \<open>
  The bot: the token manager, the configuration file, \<open>this.botUsername\<close>, the session
  map, the keys of the service cache \<open>trelloServices\<close>, and the messages delivered so
  far.
\<close>

record bot =
  tokenManager :: token_manager
  configFile :: config_file
  botUsername :: jsstring
  userSessions :: "string \<rightharpoonup> session"
  trelloServices :: "jsstring set"
  sent :: "(int \<times> outgoing) list"

text \<open>How an \<open>async\<close> handler ends: its promise resolves, or rejects with an exception.\<close>

datatype outcome = Returned | Threw

text \<open>
  The outside of the bot during one handler: whether \<open>bot.sendMessage\<close> delivers a
  message or rejects, what \<open>getBoardLists\<close> of the service built from a credential pair
  returns for a board (\<open>None\<close>: it throws), the answer of \<open>validateToken\<close>, and the
  clock. The handlers of the one-shot captures, \<open>handleQuickIdea\<close> and
  \<open>handleQuickTask\<close>, are not modelled; what they do to the bot is taken as given.
\<close>

record world =
  sendMessage_ok :: "int \<Rightarrow> outgoing \<Rightarrow> bool"
  getBoardLists_result :: "jsstring \<Rightarrow> jsstring \<Rightarrow> string \<Rightarrow> trello_list list option"
  validateToken_result :: "jsstring \<Rightarrow> jsstring \<Rightarrow> validation"
  clock :: string
  handleQuickIdea :: "bot \<Rightarrow> message \<Rightarrow> jsstring \<Rightarrow> bot \<times> outcome"
  handleQuickTask :: "bot \<Rightarrow> message \<Rightarrow> jsstring \<Rightarrow> bot \<times> outcome"

definition sendMessage :: "world \<Rightarrow> bot \<Rightarrow> int \<Rightarrow> outgoing \<Rightarrow> bot \<times> outcome" where
  "sendMessage w b cid m =
     (if sendMessage_ok w cid m then (b\<lparr>sent := sent b @ [(cid, m)]\<rparr>, Returned)
      else (b, Threw))"

definition sessionKeyOf :: "message \<Rightarrow> string" where
  "sessionKeyOf msg =
     (if isGroupChat msg then ''group_'' @ toString (chat_id msg) else toString (from_id msg))"

definition getTrelloService :: "world \<Rightarrow> bot \<Rightarrow> int \<Rightarrow> credentials \<times> bot" where
  "getTrelloService w b cid =
     (let (tokenData, tm) = getToken (tokenManager b) cid (clock w);
          key = cred_apiKey tokenData @ js '':'' @ cred_token tokenData
      in (tokenData, b\<lparr>tokenManager := tm, trelloServices := insert key (trelloServices b)\<rparr>))"

text \<open>\<open>msg.from.first_name || msg.from.username || 'User'\<close>\<close>

definition senderName :: "message \<Rightarrow> jsstring" where
  "senderName msg =
     (if from_first_name msg \<noteq> [] then from_first_name msg
      else if from_username msg \<noteq> [] then from_username msg
      else js ''User'')"

subsection \<open>Workspace setup\<close>

text \<open>\<open>/API[_\s-]?KEY\s*[:=]?\s*(.+)/i\<close> and \<open>/TOKEN\s*[:=]?\s*(.+)/i\<close>, up to the group.\<close>

definition separatorTail :: re where
  "separatorTail = Seq (Star (Lit isSpace)) (Seq (Opt (Lit (\<lambda>c. c = 58 \<or> c = 61))) (Star (Lit isSpace)))"

definition apiKeyPrefix :: re where
  "apiKeyPrefix = Seq (wordI ''API'') (Seq (Opt (Lit (\<lambda>c. c = 95 \<or> isSpace c \<or> c = 45)))
                    (Seq (wordI ''KEY'') separatorTail))"

definition tokenPrefix :: re where
  "tokenPrefix = Seq (wordI ''TOKEN'') separatorTail"

definition restOfLine :: re where
  "restOfLine = Plus (Lit (\<lambda>c. \<not> isLineTerminator c))"

text \<open>
  The loop over the lines: the variables \<open>apiKey\<close> and \<open>token\<close>, with the empty list for
  \<open>null\<close> (both are falsy).
\<close>

definition parseLine :: "jsstring \<Rightarrow> jsstring \<times> jsstring \<Rightarrow> jsstring \<times> jsstring" where
  "parseLine line acc =
     (let (key, tok) = acc
      in case searchCapture apiKeyPrefix restOfLine line of
           Some m \<Rightarrow> (trim m, tok)
         | None \<Rightarrow>
             (case searchCapture tokenPrefix restOfLine line of
                Some m \<Rightarrow> (key, trim m)
              | None \<Rightarrow> (key, tok)))"

definition parseCredentials :: "jsstring \<Rightarrow> jsstring \<times> jsstring" where
  "parseCredentials txt =
     (let lines = filter (\<lambda>l. l \<noteq> []) (map trim (splitOn 10 (trim txt)));
          (key, tok) = fold parseLine lines ([], [])
      in if key = [] \<and> tok = [] \<and> length lines = 2
         then (trim (lines ! 0), trim (lines ! 1))
         else (key, tok))"

text \<open>\<open>validation.fullName || validation.username || 'Custom Workspace'\<close>\<close>

definition workspaceLabel :: "validation \<Rightarrow> jsstring" where
  "workspaceLabel v =
     (if v_fullName v \<noteq> [] then v_fullName v
      else if v_username v \<noteq> [] then v_username v
      else js ''Custom Workspace'')"

text \<open>
  \<open>handleWorkspaceSetup\<close> has no \<open>try\<close>: a rejected \<open>sendMessage\<close> rejects the handler.
  A message without text makes \<open>msg.text.trim()\<close> throw.
\<close>

definition handleWorkspaceSetup :: "world \<Rightarrow> bot \<Rightarrow> message \<Rightarrow> session \<Rightarrow> bot \<times> outcome" where
  "handleWorkspaceSetup w b msg sess =
     (case msg_text msg of
        None \<Rightarrow> (b, Threw)
      | Some txt \<Rightarrow>
          (let cid = chat_id msg;
               sessionKey = sessionKeyOf msg;
               (key, tok) = parseCredentials txt
           in if key = [] \<or> tok = [] then sendMessage w b cid InvalidFormat
              else
                (let v = validateToken_result w key tok
                 in if \<not> valid v
                    then sendMessage w b cid (InvalidCredentials (v_error v) (length key) (length tok))
                    else
                      (let tm = snd (setToken (tokenManager b) cid tok key (workspaceLabel v) (clock w));
                           b1 = b\<lparr>tokenManager := tm,
                                  userSessions := (userSessions b)(sessionKey := None),
                                  trelloServices := {},
                                  configFile := clearChatConfig (configFile b) cid\<rparr>
                       in sendMessage w b1 cid (WorkspaceConfigured v)))))"

subsection \<open>Idea capture\<close>

text \<open>
  How the \<open>try\<close> block of \<open>handleSessionMessage\<close> ends: it runs to its end, it returns
  the promise of a \<open>sendMessage\<close> that it does not await (a rejection of that promise
  is not caught by the \<open>catch\<close> and rejects the handler), or it raises.
\<close>

datatype try_end = Completed | ReturnedPromise outcome | Raised

text \<open>
  The \<open>try\<close> block. The session object is the one stored in the map, so the writes to
  \<open>session.data.idea\<close>, \<open>session.data.userName\<close> and \<open>session.step\<close> change the stored
  session. A session without \<open>data\<close> makes the first write throw, and a message without
  text makes \<open>text.substring\<close> throw when the list prompt is built.
\<close>

definition ideaTry :: "world \<Rightarrow> bot \<Rightarrow> message \<Rightarrow> session \<Rightarrow> bot \<times> try_end" where
  "ideaTry w b msg sess =
     (let cid = chat_id msg; sessionKey = sessionKeyOf msg
      in case data sess of
           None \<Rightarrow> (b, Raised)
         | Some d \<Rightarrow>
             (let d1 = d\<lparr>idea := msg_text msg,
                          d_userName := (if d_userName d = [] then senderName msg else d_userName d)\<rparr>;
                  sess1 = sess\<lparr>data := Some d1, step := ''waiting_for_list''\<rparr>;
                  b1 = b\<lparr>userSessions := (userSessions b)(sessionKey \<mapsto> sess1)\<rparr>;
                  config = getChatConfig (configFile b1) cid
              in if \<not> hasBoard config
                 then (let (b2, oc) = sendMessage w (b1\<lparr>userSessions := (userSessions b1)(sessionKey := None)\<rparr>)
                                         cid NoBoardSelected
                       in (b2, ReturnedPromise oc))
                 else
                   (let (trello, b2) = getTrelloService w b1 cid
                    in case getBoardLists_result w (cred_apiKey trello) (cred_token trello) (the (boardId config)) of
                         None \<Rightarrow> (b2, Raised)
                       | Some ls \<Rightarrow>
                           if ls = []
                           then (let (b3, oc) = sendMessage w (b2\<lparr>userSessions := (userSessions b2)(sessionKey := None)\<rparr>)
                                                   cid NoListsFound
                                 in (b3, ReturnedPromise oc))
                           else (case msg_text msg of
                                   None \<Rightarrow> (b2, Raised)
                                 | Some txt \<Rightarrow>
                                     (case sendMessage w b2 cid (SelectList txt ls) of
                                        (b3, Returned) \<Rightarrow> (b3, Completed)
                                      | (b3, Threw) \<Rightarrow> (b3, Raised))))))"

definition handleSessionMessage :: "world \<Rightarrow> bot \<Rightarrow> message \<Rightarrow> session \<Rightarrow> bot \<times> outcome" where
  "handleSessionMessage w b msg sess =
     (let cid = chat_id msg; sessionKey = sessionKeyOf msg
      in if stype sess = ''setworkspace'' then handleWorkspaceSetup w b msg sess
         else if step sess = ''waiting_for_idea''
         then (case ideaTry w b msg sess of
                 (b1, Completed) \<Rightarrow> (b1, Returned)
               | (b1, ReturnedPromise oc) \<Rightarrow> (b1, oc)
               | (b1, Raised) \<Rightarrow>
                   sendMessage w (b1\<lparr>userSessions := (userSessions b1)(sessionKey := None)\<rparr>)
                     cid SessionError)
         else (b, Returned))"

text \<open>
  The last part of \<open>handleMentions\<close>, reached when no session is stored under the key:
  a message with entities that mentions the bot and holds \<open>idea:\<close> or \<open>task:\<close>
  (\<open>/idea:\s*(.+)/i\<close>, \<open>/task:\s*(.+)/i\<close>) goes to the one-shot capture.
\<close>

definition handleBotMention :: "world \<Rightarrow> bot \<Rightarrow> message \<Rightarrow> jsstring \<Rightarrow> bot \<times> outcome" where
  "handleBotMention w b msg txt =
     (if has_entities msg \<and> includesStr txt (js ''@'' @ botUsername b)
      then (case searchCapture (Seq (wordI ''idea:'') (Star (Lit isSpace))) restOfLine txt of
              Some m \<Rightarrow> handleQuickIdea w b msg m
            | None \<Rightarrow>
                (case searchCapture (Seq (wordI ''task:'') (Star (Lit isSpace))) restOfLine txt of
                   Some m \<Rightarrow> handleQuickTask w b msg m
                 | None \<Rightarrow> (b, Returned)))
      else (b, Returned))"

text \<open>
  \<open>handleMentions\<close>. The session object read from the map is the one the later writes
  change.
\<close>

definition handleMentions :: "world \<Rightarrow> bot \<Rightarrow> message \<Rightarrow> bot \<times> outcome" where
  "handleMentions w b msg =
     (case msg_text msg of
        None \<Rightarrow> (b, Returned)
      | Some txt \<Rightarrow>
          if txt = [] then (b, Returned)
          else if startsWith txt (js ''/'') \<and> txt \<noteq> js ''/cancel'' then (b, Returned)
          else
            (let sessionKey = sessionKeyOf msg
             in case userSessions b sessionKey of
                  None \<Rightarrow> handleBotMention w b msg txt
                | Some sess \<Rightarrow>
                    if txt = js ''/cancel''
                    then sendMessage w (b\<lparr>userSessions := (userSessions b)(sessionKey := None)\<rparr>)
                           (chat_id msg) OperationCancelled
                    else if isGroupChat msg \<and> step sess = ''waiting_for_idea''
                    then (case data sess of
                            None \<Rightarrow> (b, Threw)
                          | Some d \<Rightarrow>
                              (let sess1 = sess\<lparr>data := Some (d\<lparr>d_userName := senderName msg,
                                                                   originalUserId := from_id msg\<rparr>)\<rparr>
                               in handleSessionMessage w
                                    (b\<lparr>userSessions := (userSessions b)(sessionKey \<mapsto> sess1)\<rparr>) msg sess1))
                    else handleSessionMessage w b msg sess))"

text \<open>The \<open>message\<close> listener of \<open>setupHandlers\<close>: an exception is logged and dropped.\<close>

definition onMessage :: "world \<Rightarrow> bot \<Rightarrow> message \<Rightarrow> bot" where
  "onMessage w b msg = fst (handleMentions w b msg)"

text \<open>
  \<open>handleInteractiveIdea\<close> and \<open>handleSetWorkspace\<close>, which start the two dialogs: the
  session is stored, then the prompt is sent.
\<close>

definition handleInteractiveIdea :: "world \<Rightarrow> bot \<Rightarrow> message \<Rightarrow> bot \<times> outcome" where
  "handleInteractiveIdea w b msg =
     (let cid = chat_id msg; config = getChatConfig (configFile b) cid
      in if \<not> hasBoard config then sendMessage w b cid NoBoardSelected
         else
           (let sess = \<lparr>step = ''waiting_for_idea'', stype = ''addidea'',
                        data = Some \<lparr>originalUserId = from_id msg, d_userName = senderName msg,
                                      idea = None\<rparr>,
                        s_chatId = cid\<rparr>
            in sendMessage w (b\<lparr>userSessions := (userSessions b)(sessionKeyOf msg \<mapsto> sess)\<rparr>)
                 cid IdeaPrompt))"

definition handleSetWorkspace :: "world \<Rightarrow> bot \<Rightarrow> message \<Rightarrow> bot \<times> outcome" where
  "handleSetWorkspace w b msg =
     sendMessage w
       (b\<lparr>userSessions := (userSessions b)(sessionKeyOf msg \<mapsto>
            \<lparr>step = ''waiting_for_credentials'', stype = ''setworkspace'', data = None,
             s_chatId = chat_id msg\<rparr>)\<rparr>)
       (chat_id msg) SetupInstructions"

subsection \<open>Workspace removal\<close>

definition handleRemoveWorkspace :: "world \<Rightarrow> bot \<Rightarrow> message \<Rightarrow> bot \<times> outcome" where
  "handleRemoveWorkspace w b msg =
     (let cid = chat_id msg;
          (hasCustom, tm1) = hasCustomToken (tokenManager b) cid;
          b1 = b\<lparr>tokenManager := tm1\<rparr>
      in if \<not> hasCustom then sendMessage w b1 cid UsingDefaultWorkspace
         else
           (let (removed, tm2) = removeToken tm1 cid (clock w);
                b2 = b1\<lparr>tokenManager := tm2\<rparr>
            in if removed
               then sendMessage w (b2\<lparr>trelloServices := {},
                                       configFile := clearChatConfig (configFile b2) cid\<rparr>)
                      cid WorkspaceRemoved
               else sendMessage w b2 cid RemoveFailed))"

section \<open>Invariants and scenarios\<close>

subsection \<open>The pending-request invariant\<close>

text \<open>
  The (requester, chat) pairs of the requests whose status is \<open>pending\<close>. A document
  satisfies the invariant when no pair occurs twice; a manager satisfies it when its
  in-memory document and its file do.
\<close>

definition pendingPairs :: "access_request list \<Rightarrow> (string \<times> string) list" where
  "pendingPairs rs = map (\<lambda>r. (userId r, chatId r)) (filter (\<lambda>r. status r = ''pending'') rs)"

definition onePending :: "auth_doc \<Rightarrow> bool" where
  "onePending doc = distinct (pendingPairs (pendingRequests doc))"

definition authInv :: "auth_manager \<Rightarrow> bool" where
  "authInv am = (onePending (authorized am) \<and>
                 (case authFile am of None \<Rightarrow> True | Some d \<Rightarrow> onePending d))"

text \<open>The calls a running bot can make on the manager, and their effect on it.\<close>

datatype auth_op =
    OpIsAuthorized message
  | OpAuthorizeUser string
  | OpUnauthorizeUser string
  | OpAuthorizeGroup string
  | OpUnauthorizeGroup string
  | OpAddAccessRequest string jsstring string jsstring string string
  | OpGetPendingRequests
  | OpApproveRequest int
  | OpRejectRequest int
  | OpClearPendingRequests
  | OpImportAuthorizedList "string list" "string list"

fun runAuthOp :: "auth_op \<Rightarrow> auth_manager \<Rightarrow> auth_manager" where
  "runAuthOp (OpIsAuthorized msg) am = snd (isAuthorized am msg)"
| "runAuthOp (OpAuthorizeUser uid) am = snd (authorizeUser am uid)"
| "runAuthOp (OpUnauthorizeUser uid) am = snd (unauthorizeUser am uid)"
| "runAuthOp (OpAuthorizeGroup gid) am = snd (authorizeGroup am gid)"
| "runAuthOp (OpUnauthorizeGroup gid) am = snd (unauthorizeGroup am gid)"
| "runAuthOp (OpAddAccessRequest uid un cid ct ty now) am = snd (addAccessRequest am uid un cid ct ty now)"
| "runAuthOp OpGetPendingRequests am = snd (getPendingRequests am)"
| "runAuthOp (OpApproveRequest i) am = snd (approveRequest am i)"
| "runAuthOp (OpRejectRequest i) am = snd (rejectRequest am i)"
| "runAuthOp OpClearPendingRequests am = clearPendingRequests am"
| "runAuthOp (OpImportAuthorizedList us gs) am = importAuthorizedList am us gs"

subsection \<open>Events after which the supervisor must stay quiet\<close>

text \<open>Every event except a health check that succeeds.\<close>

fun noSuccess :: "conn_event \<Rightarrow> bool" where
  "noSuccess (HealthTick now ProbeOk out) = False"
| "noSuccess (HealthTick now p out) = True"
| "noSuccess (RetryTimer k out) = True"

subsection \<open>Scenarios\<close>

text \<open>A first start with admin \<open>1\<close>, and the state after user \<open>7\<close> has asked for access.\<close>

definition bootAuth :: auth_manager where
  "bootAuth = newAuthManager [''1''] None"

definition askedOnce :: auth_manager where
  "askedOnce = snd (addAccessRequest bootAuth ''7'' (js ''Ann'') ''7'' (js ''Private Chat'')
                      ''user'' ''2024-01-01T00:00:00.000Z'')"

text \<open>
  A manager whose lists are empty although \<open>1\<close> is an admin, and a manager that has
  authorized the group \<open>-100\<close>.
\<close>

definition strippedAuth :: auth_manager where
  "strippedAuth =
     \<lparr>adminIds = [''1''],
      authorized = \<lparr>users = [], groups = [], pendingRequests = []\<rparr>,
      authFile = Some \<lparr>users = [], groups = [], pendingRequests = []\<rparr>\<rparr>"

definition groupAuth :: auth_manager where
  "groupAuth = snd (authorizeGroup bootAuth ''-100'')"

text \<open>
  Ten reconnect attempts that fail one after the other, from a fresh supervisor, and
  events that follow them.
\<close>

definition tenFailures :: "conn_event list" where
  "tenFailures = [HealthTick 1000 ProbeThrows StartThrows,
     RetryTimer 0 StartThrows, RetryTimer 0 StartThrows, RetryTimer 0 StartThrows,
     RetryTimer 0 StartThrows, RetryTimer 0 StartThrows, RetryTimer 0 StartThrows,
     RetryTimer 0 StartThrows, RetryTimer 0 StartThrows, RetryTimer 0 StartThrows]"

definition afterGivingUp :: "conn_event list" where
  "afterGivingUp = [HealthTick 2000 ProbeThrows Restarted, RetryTimer 0 Restarted,
                    HealthTick 3000 ProbeFalsy Restarted]"

text \<open>A message with text \<open>txt\<close> from user \<open>uid\<close> in chat \<open>cid\<close> of type \<open>ty\<close>.\<close>

definition messageOf :: "int \<Rightarrow> int \<Rightarrow> string \<Rightarrow> jsstring \<Rightarrow> message" where
  "messageOf uid cid ty txt =
     \<lparr>from_id = uid, from_first_name = js ''Ann'', from_username = [], chat_id = cid,
      chat_type = ty, chat_title = [], msg_text = Some txt, has_entities = False\<rparr>"

text \<open>
  The input of the structuring example: three lines, the second with a trailing blank.
\<close>

definition milk :: jsstring where
  "milk = js ''Buy milk'' @ [10] @ js ''- 2% '' @ [10] @ js ''- https://example.com/milk''"

text \<open>
  A bot whose chat \<open>42\<close> has a board selected and no credential record; a world in which
  every message is delivered, the board has one list, no credential pair validates and
  the one-shot captures do nothing; and the same world with a transport that rejects
  every message.
\<close>

definition demoTokens :: token_manager where
  "demoTokens =
     \<lparr>defaultApiKey = js ''KEY0'', defaultToken = js ''TOK0'', tokens = Map.empty,
      tokensFile = Some Map.empty, encrypt = (\<lambda>x. 1 # x), decrypt = tl\<rparr>"

definition demoBot :: bot where
  "demoBot =
     \<lparr>tokenManager = demoTokens,
      configFile = Some [''42'' \<mapsto> \<lparr>boardId = Some ''B1'', defaultListId = None, updatedAt = None\<rparr>],
      botUsername = js ''trello_bot'',
      userSessions = Map.empty, trelloServices = {}, sent = []\<rparr>"

definition demoWorld :: world where
  "demoWorld =
     \<lparr>sendMessage_ok = (\<lambda>cid m. True),
      getBoardLists_result = (\<lambda>key tok board. Some [\<lparr>list_id = ''L1'', list_name = js ''Inbox''\<rparr>]),
      validateToken_result = (\<lambda>key tok. \<lparr>valid = False, v_username = [], v_fullName = [],
                                            v_email = [], v_error = js ''invalid key''\<rparr>),
      clock = ''2024-01-01T00:00:00.000Z'',
      handleQuickIdea = (\<lambda>b msg txt. (b, Returned)),
      handleQuickTask = (\<lambda>b msg txt. (b, Returned))\<rparr>"

definition deafWorld :: world where
  "deafWorld = demoWorld\<lparr>sendMessage_ok := (\<lambda>cid m. False)\<rparr>"

text \<open>A world in which the pair \<open>k1\<close>, \<open>t1\<close> validates.\<close>

definition friendlyWorld :: world where
  "friendlyWorld =
     demoWorld\<lparr>validateToken_result :=
       (\<lambda>key tok. \<lparr>valid = (key = js ''k1'' \<and> tok = js ''t1''), v_username = js ''ann'',
                     v_fullName = [], v_email = [], v_error = js ''invalid key''\<rparr>)\<rparr>"

text \<open>
  The workspace dialog of chat \<open>42\<close>: the command that starts it, a two-line pair that
  validates in \<open>friendlyWorld\<close>, a labelled pair that does not, and a text that is no
  pair; the bot after the command, after the valid pair, and after the command has
  been given again; and a later world.
\<close>

definition setupStart :: message where
  "setupStart = messageOf 42 42 ''private'' (js ''/setworkspace'')"

definition goodText :: jsstring where
  "goodText = js ''k1'' @ [10] @ js ''t1''"

definition badText :: jsstring where
  "badText = js ''API_KEY: abc'' @ [10] @ js ''token=xyz''"

definition helloText :: jsstring where
  "helloText = js ''hello''"

definition goodPair :: message where
  "goodPair = messageOf 42 42 ''private'' goodText"

definition badPair :: message where
  "badPair = messageOf 42 42 ''private'' badText"

definition notAPair :: message where
  "notAPair = messageOf 42 42 ''private'' helloText"

definition setupBot :: bot where
  "setupBot = fst (handleSetWorkspace demoWorld demoBot setupStart)"

definition customBot :: bot where
  "customBot = onMessage friendlyWorld setupBot goodPair"

definition retryBot :: bot where
  "retryBot = fst (handleSetWorkspace demoWorld customBot setupStart)"

definition laterWorld :: world where
  "laterWorld = friendlyWorld\<lparr>clock := ''2024-02-02T00:00:00.000Z''\<rparr>"

definition setupSession :: session where
  "setupSession = \<lparr>step = ''waiting_for_credentials'', stype = ''setworkspace'', data = None, s_chatId = 42\<rparr>"

text \<open>
  The idea dialog of chat \<open>42\<close>: the command, the idea, the cancel message, the bot and
  its session after the command, and a world whose tracking service fails.
\<close>

definition ideaStart :: message where
  "ideaStart = messageOf 42 42 ''private'' (js ''/addidea'')"

definition ideaText :: jsstring where
  "ideaText = js ''Buy milk''"

definition ideaMsg :: message where
  "ideaMsg = messageOf 42 42 ''private'' ideaText"

definition cancelMsg :: message where
  "cancelMsg = messageOf 42 42 ''private'' (js ''/cancel'')"

definition ideaBot :: bot where
  "ideaBot = fst (handleInteractiveIdea demoWorld demoBot ideaStart)"

definition ideaSession :: session where
  "ideaSession = \<lparr>step = ''waiting_for_idea'', stype = ''addidea'',
                   data = Some \<lparr>originalUserId = 42, d_userName = js ''Ann'', idea = None\<rparr>,
                   s_chatId = 42\<rparr>"

definition brokenWorld :: world where
  "brokenWorld = demoWorld\<lparr>getBoardLists_result := (\<lambda>key tok board. None)\<rparr>"

section \<open>Properties of the authorization gate\<close>

lemma authFile_loadAuthorized: "authFile (loadAuthorized am) = authFile am"
  by (simp add: loadAuthorized_def split: option.splits)

lemma adminIds_loadAuthorized: "adminIds (loadAuthorized am) = adminIds am"
  by (simp add: loadAuthorized_def split: option.splits)

lemma loadAuthorized_idem: "loadAuthorized (loadAuthorized am) = loadAuthorized am"
  by (simp add: loadAuthorized_def split: option.splits)

lemma set_pushMissing: "set (pushMissing ids us) = set us \<union> set ids"
  unfolding pushMissing_def by (induction ids arbitrary: us) auto

lemma toString_eval:
  "toString 1 = ''1''" "toString 7 = ''7''" "toString 8 = ''8''" "toString 42 = ''42''"
  "toString (- 100) = ''-100''"
  by (simp_all add: toString_def digitsOf.simps)

text \<open>
  C1. An admin identity is authorized whatever the lists of users and groups hold: the
  check answers before any list is read. \<open>unauthorizeUser\<close> of an admin identity answers
  \<open>false\<close>; the file is not written, the in-memory document is the one a load yields
  (already-loaded state stays exactly as it is), and an admin present in the users list
  stays in it.
\<close>

theorem admin_always_authorized:
  assumes "uid \<in> set (adminIds am)" and "toString (from_id msg) = uid"
  shows "isAuthorized am msg = (True, am)
       \<and> unauthorizeUser am uid = (False, loadAuthorized am)
       \<and> authFile (loadAuthorized am) = authFile am
       \<and> unauthorizeUser (loadAuthorized am) uid = (False, loadAuthorized am)
       \<and> (uid \<in> set (users (authorized am)) \<longrightarrow> uid \<in> set (users (authorized (loadAuthorized am))))"
  using assms
  by (auto simp: isAuthorized_def unauthorizeUser_def isAdmin_def Let_def
       adminIds_loadAuthorized authFile_loadAuthorized loadAuthorized_idem
       loadAuthorized_def set_pushMissing split: option.splits)

theorem admin_always_authorized_witness:
  "''1'' \<in> set (adminIds strippedAuth)
   \<and> toString (from_id (messageOf 1 (- 100) ''group'' (js ''hi''))) = ''1''
   \<and> users (authorized strippedAuth) = [] \<and> groups (authorized strippedAuth) = []
   \<and> isAuthorized strippedAuth (messageOf 1 (- 100) ''group'' (js ''hi'')) = (True, strippedAuth)
   \<and> unauthorizeUser strippedAuth ''1'' = (False, loadAuthorized strippedAuth)
   \<and> authFile (loadAuthorized strippedAuth) = authFile strippedAuth"
proof -
  have h1: "''1'' \<in> set (adminIds strippedAuth)"
    by (simp add: strippedAuth_def)
  have h2: "toString (from_id (messageOf 1 (- 100) ''group'' (js ''hi''))) = ''1''"
    by (simp add: messageOf_def toString_eval)
  show ?thesis
    using admin_always_authorized[OF h1 h2] h1 h2 by (simp add: strippedAuth_def)
qed

text \<open>
  C2. For a sender who is not an admin, the answer of \<open>isAuthorized\<close> in a group or
  supergroup is whether the chat's identity is in the list of groups of the loaded
  document: neither the sender nor the list of users enters, and every other sender of
  that chat who is not an admin gets the same answer. In every other chat it is whether
  the sender's identity is in the list of users.
\<close>

theorem group_or_sender:
  assumes "toString (from_id msg) \<notin> set (adminIds am)"
  shows "fst (isAuthorized am msg) =
           (if chat_type msg = ''group'' \<or> chat_type msg = ''supergroup''
            then toString (chat_id msg) \<in> set (groups (authorized (loadAuthorized am)))
            else toString (from_id msg) \<in> set (users (authorized (loadAuthorized am))))
       \<and> (\<forall>other. isGroupChat msg \<and> isGroupChat other \<and> chat_id other = chat_id msg
                  \<and> toString (from_id other) \<notin> set (adminIds am)
              \<longrightarrow> isAuthorized am other = isAuthorized am msg)"
  using assms
  by (simp add: isAuthorized_def isAdmin_def isGroupChat_def isAuthorizedGroup_def
        isAuthorizedUser_def Let_def)

lemma groupAuth_eval:
  "adminIds groupAuth = [''1'']"
  "users (authorized (loadAuthorized groupAuth)) = [''1'']"
  "groups (authorized (loadAuthorized groupAuth)) = [''-100'']"
  by (simp_all add: groupAuth_def bootAuth_def newAuthManager_def authorizeGroup_def Let_def
        loadAuthorized_def saveAuthorized_def pushMissing_def)

theorem group_or_sender_witness:
  "toString (from_id (messageOf 7 (- 100) ''supergroup'' (js ''hi''))) \<notin> set (adminIds groupAuth)
   \<and> ''7'' \<notin> set (users (authorized (loadAuthorized groupAuth)))
   \<and> fst (isAuthorized groupAuth (messageOf 7 (- 100) ''supergroup'' (js ''hi''))) = True
   \<and> isAuthorized groupAuth (messageOf 8 (- 100) ''group'' (js ''ho''))
       = isAuthorized groupAuth (messageOf 7 (- 100) ''supergroup'' (js ''hi''))
   \<and> fst (isAuthorized groupAuth (messageOf 7 7 ''private'' (js ''hi''))) = False"
proof -
  let ?m = "messageOf 7 (- 100) ''supergroup'' (js ''hi'')"
  let ?o = "messageOf 8 (- 100) ''group'' (js ''ho'')"
  let ?p = "messageOf 7 7 ''private'' (js ''hi'')"
  have h1: "toString (from_id ?m) \<notin> set (adminIds groupAuth)"
    by (simp add: messageOf_def toString_eval groupAuth_eval)
  have h2: "toString (from_id ?p) \<notin> set (adminIds groupAuth)"
    by (simp add: messageOf_def toString_eval groupAuth_eval)
  have o: "isGroupChat ?m \<and> isGroupChat ?o \<and> chat_id ?o = chat_id ?m
           \<and> toString (from_id ?o) \<notin> set (adminIds groupAuth)"
    by (simp add: messageOf_def isGroupChat_def toString_eval groupAuth_eval)
  have same: "isAuthorized groupAuth ?o = isAuthorized groupAuth ?m"
    using group_or_sender[OF h1, THEN conjunct2] o by blast
  have a: "fst (isAuthorized groupAuth ?m) = True"
    using group_or_sender[OF h1, THEN conjunct1]
    by (simp add: messageOf_def toString_eval groupAuth_eval)
  have b: "fst (isAuthorized groupAuth ?p) = False"
    using group_or_sender[OF h2, THEN conjunct1]
    by (simp add: messageOf_def toString_eval groupAuth_eval)
  have u: "''7'' \<notin> set (users (authorized (loadAuthorized groupAuth)))"
    by (simp add: groupAuth_eval)
  show ?thesis
    using h1 u a same b by simp
qed

subsection \<open>Access requests\<close>

lemma addAccessRequest_exists:
  assumes "list_ex (samePair uid cid) (pendingRequests (authorized (loadAuthorized am)))"
  shows "addAccessRequest am uid un cid ct ty now = (None, loadAuthorized am)"
  using assms by (simp add: addAccessRequest_def Let_def)

lemma pendingPairs_append_fresh:
  assumes "distinct (pendingPairs rs)" and "\<not> list_ex (samePair (userId r) (chatId r)) rs"
  shows "distinct (pendingPairs (rs @ [r]))"
proof -
  have "(userId r, chatId r) \<notin> set (pendingPairs rs)"
    using assms(2) by (auto simp: pendingPairs_def list_ex_iff samePair_def)
  then show ?thesis using assms(1) by (simp add: pendingPairs_def)
qed

lemma set_filter_update:
  "\<not> P x \<Longrightarrow> set (filter P (xs[i := x])) \<subseteq> set (filter P xs)"
proof (induction xs arbitrary: i)
  case Nil
  then show ?case by simp
next
  case (Cons a xs)
  then show ?case by (cases i) auto
qed

lemma distinct_map_filter_update:
  assumes "\<not> P x" and "distinct (map f (filter P xs))"
  shows "distinct (map f (filter P (xs[i := x])))"
  using assms(2)
proof (induction xs arbitrary: i)
  case Nil
  then show ?case by simp
next
  case (Cons a xs)
  show ?case
  proof (cases i)
    case 0
    then show ?thesis using Cons.prems assms(1) by (simp split: if_splits)
  next
    case (Suc j)
    have sub: "set (filter P (xs[j := x])) \<subseteq> set (filter P xs)"
      using assms(1) by (rule set_filter_update)
    show ?thesis
    proof (cases "P a")
      case True
      then have "f a \<notin> f ` set (filter P xs)" and "distinct (map f (filter P xs))"
        using Cons.prems by auto
      then show ?thesis using Cons.IH[of j] sub True Suc by auto
    next
      case False
      then show ?thesis using Cons.IH[of j] Cons.prems Suc by simp
    qed
  qed
qed

lemma pendingPairs_update:
  assumes "s \<noteq> ''pending''" and "distinct (pendingPairs rs)"
  shows "distinct (pendingPairs (rs[i := (r\<lparr>status := s\<rparr>)]))"
  unfolding pendingPairs_def
  by (rule distinct_map_filter_update) (use assms in \<open>simp_all add: pendingPairs_def\<close>)

lemma pendingPairs_filter:
  "distinct (pendingPairs rs) \<Longrightarrow> distinct (pendingPairs (filter (\<lambda>r. status r = ''pending'') rs))"
  by (simp add: pendingPairs_def)

lemma authInv_load: "authInv am \<Longrightarrow> authInv (loadAuthorized am)"
  by (auto simp: authInv_def loadAuthorized_def onePending_def split: option.splits)

lemma authInv_save: "onePending (authorized am) \<Longrightarrow> authInv (saveAuthorized am)"
  by (simp add: authInv_def saveAuthorized_def)

lemma authInv_mem: "authInv am \<Longrightarrow> onePending (authorized am)"
  by (simp add: authInv_def)

lemma authInv_authorizeUser: "authInv am \<Longrightarrow> authInv (snd (authorizeUser am uid))"
  using authInv_load[of am]
  by (auto simp: authorizeUser_def Let_def onePending_def intro!: authInv_save dest: authInv_mem)

lemma authInv_unauthorizeUser: "authInv am \<Longrightarrow> authInv (snd (unauthorizeUser am uid))"
  using authInv_load[of am]
  by (auto simp: unauthorizeUser_def Let_def onePending_def intro!: authInv_save dest: authInv_mem)

lemma authInv_authorizeGroup: "authInv am \<Longrightarrow> authInv (snd (authorizeGroup am gid))"
  using authInv_load[of am]
  by (auto simp: authorizeGroup_def Let_def onePending_def intro!: authInv_save dest: authInv_mem)

lemma authInv_unauthorizeGroup: "authInv am \<Longrightarrow> authInv (snd (unauthorizeGroup am gid))"
  using authInv_load[of am]
  by (auto simp: unauthorizeGroup_def Let_def onePending_def intro!: authInv_save dest: authInv_mem)

lemma authInv_addAccessRequest:
  "authInv am \<Longrightarrow> authInv (snd (addAccessRequest am uid un cid ct ty now))"
  using authInv_load[of am]
    pendingPairs_append_fresh[of "pendingRequests (authorized (loadAuthorized am))"
      "\<lparr>userId = uid, userName = un, chatId = cid, chatTitle = ct,
                     rtype = ty, timestamp = now, status = ''pending''\<rparr>"]
  by (auto simp: addAccessRequest_def Let_def onePending_def intro!: authInv_save dest: authInv_mem)

lemma authInv_rejectRequest: "authInv am \<Longrightarrow> authInv (snd (rejectRequest am i))"
  using authInv_load[of am]
  by (auto simp: rejectRequest_def Let_def onePending_def
        intro!: authInv_save pendingPairs_update dest: authInv_mem)

lemma pendingRequests_authorizeUser:
  "pendingRequests (authorized (snd (authorizeUser am uid))) = pendingRequests (authorized (loadAuthorized am))"
  by (simp add: authorizeUser_def Let_def saveAuthorized_def)

lemma pendingRequests_authorizeGroup:
  "pendingRequests (authorized (snd (authorizeGroup am uid))) = pendingRequests (authorized (loadAuthorized am))"
  by (simp add: authorizeGroup_def Let_def saveAuthorized_def)

lemma authInv_approveRequest: "authInv am \<Longrightarrow> authInv (snd (approveRequest am i))"
proof -
  assume inv: "authInv am"
  let ?am1 = "loadAuthorized am"
  have i1: "authInv ?am1" using inv by (rule authInv_load)
  have iu: "authInv (snd (authorizeUser ?am1 u))" for u
    using i1 by (rule authInv_authorizeUser)
  have ig: "authInv (snd (authorizeGroup ?am1 g))" for g
    using i1 by (rule authInv_authorizeGroup)
  have du: "distinct (pendingPairs (pendingRequests (authorized (snd (authorizeUser ?am1 u)))))" for u
    using iu[of u] by (simp add: authInv_def onePending_def)
  have dg: "distinct (pendingPairs (pendingRequests (authorized (snd (authorizeGroup ?am1 g)))))" for g
    using ig[of g] by (simp add: authInv_def onePending_def)
  show ?thesis
    using i1 iu ig du dg
    by (auto simp: approveRequest_def Let_def onePending_def
          intro!: authInv_save pendingPairs_update)
qed

lemma authInv_clearPendingRequests: "authInv am \<Longrightarrow> authInv (clearPendingRequests am)"
  using authInv_load[of am]
  by (auto simp: clearPendingRequests_def Let_def onePending_def
        intro!: authInv_save pendingPairs_filter dest: authInv_mem)

lemma authInv_importAuthorizedList: "authInv am \<Longrightarrow> authInv (importAuthorizedList am us gs)"
  using authInv_load[of am]
  by (auto simp: importAuthorizedList_def Let_def onePending_def intro!: authInv_save dest: authInv_mem)

lemma authInv_isAuthorized: "authInv am \<Longrightarrow> authInv (snd (isAuthorized am msg))"
  using authInv_load[of am]
  by (simp add: isAuthorized_def isAuthorizedGroup_def isAuthorizedUser_def Let_def)

lemma authInv_runAuthOp: "authInv am \<Longrightarrow> authInv (runAuthOp op am)"
  by (cases op)
     (simp_all add: authInv_isAuthorized authInv_authorizeUser authInv_unauthorizeUser
        authInv_authorizeGroup authInv_unauthorizeGroup authInv_addAccessRequest
        authInv_approveRequest authInv_rejectRequest authInv_clearPendingRequests
        authInv_importAuthorizedList authInv_load getPendingRequests_def Let_def)

lemma authInv_fold: "authInv am \<Longrightarrow> authInv (fold runAuthOp ops am)"
  by (induction ops arbitrary: am) (simp_all add: authInv_runAuthOp)

lemma authInv_new:
  "(case file of None \<Rightarrow> True | Some d \<Rightarrow> onePending d) \<Longrightarrow> authInv (newAuthManager admins file)"
  by (auto simp: newAuthManager_def authInv_def loadAuthorized_def saveAuthorized_def onePending_def
        pendingPairs_def Let_def split: option.splits)

lemma pendingRequests_load_save:
  "pendingRequests (authorized (loadAuthorized (saveAuthorized am))) = pendingRequests (authorized am)"
  by (simp add: loadAuthorized_def saveAuthorized_def)

lemma list_ex_nth: "n < length xs \<Longrightarrow> P (xs ! n) \<Longrightarrow> list_ex P xs"
  by (auto simp: list_ex_iff)

lemma rejectRequest_keeps_pair:
  assumes "0 \<le> i" and "i < int (length (pendingRequests (authorized (loadAuthorized am))))"
  shows "pendingRequests (authorized (loadAuthorized (snd (rejectRequest am i))))
           = (pendingRequests (authorized (loadAuthorized am)))
               [nat i := (pendingRequests (authorized (loadAuthorized am)) ! nat i)\<lparr>status := ''rejected''\<rparr>]"
  using assms by (simp add: rejectRequest_def Let_def pendingRequests_load_save)

lemma approveRequest_keeps_pair:
  assumes "0 \<le> i" and "i < int (length (pendingRequests (authorized (loadAuthorized am))))"
  shows "pendingRequests (authorized (loadAuthorized (snd (approveRequest am i))))
           = (if authFile am = None
              then (pendingRequests (authorized (loadAuthorized am)))
               [nat i := (pendingRequests (authorized (loadAuthorized am)) ! nat i)\<lparr>status := ''approved''\<rparr>]
              else pendingRequests (authorized (loadAuthorized am)))"
  using assms
  by (simp add: approveRequest_def Let_def pendingRequests_load_save authFile_loadAuthorized
        pendingRequests_authorizeUser pendingRequests_authorizeGroup loadAuthorized_idem)

lemma askedOnce_eval:
  "loadAuthorized askedOnce = askedOnce"
  "pendingRequests (authorized askedOnce) =
     [\<lparr>userId = ''7'', userName = js ''Ann'', chatId = ''7'', chatTitle = js ''Private Chat'',
       rtype = ''user'', timestamp = ''2024-01-01T00:00:00.000Z'', status = ''pending''\<rparr>]"
  by (simp_all add: askedOnce_def bootAuth_def newAuthManager_def addAccessRequest_def Let_def
        loadAuthorized_def saveAuthorized_def pushMissing_def samePair_def)

text \<open>
  C9. When the loaded list holds a pending request of the same requester and chat,
  \<open>addAccessRequest\<close> answers \<open>null\<close>, the list is the loaded list and the file is not
  written. From a start on a file that satisfies it (or on no file), every sequence of
  calls on the manager keeps the invariant that no (requester, chat) pair has two
  pending requests, in memory and in the file.
\<close>

theorem duplicate_request_suppressed:
  assumes "list_ex (\<lambda>r. status r = ''pending'' \<and> samePair uid cid r)
             (pendingRequests (authorized (loadAuthorized am)))"
    and "case file of None \<Rightarrow> True | Some d \<Rightarrow> onePending d"
  shows "addAccessRequest am uid un cid ct ty now = (None, loadAuthorized am)
       \<and> pendingRequests (authorized (snd (addAccessRequest am uid un cid ct ty now)))
           = pendingRequests (authorized (loadAuthorized am))
       \<and> authFile (snd (addAccessRequest am uid un cid ct ty now)) = authFile am
       \<and> authInv (fold runAuthOp ops (newAuthManager admins file))"
proof -
  have "list_ex (samePair uid cid) (pendingRequests (authorized (loadAuthorized am)))"
    using assms(1) by (auto simp: list_ex_iff)
  then have "addAccessRequest am uid un cid ct ty now = (None, loadAuthorized am)"
    by (rule addAccessRequest_exists)
  moreover have "authInv (fold runAuthOp ops (newAuthManager admins file))"
    using assms(2) by (intro authInv_fold authInv_new)
  ultimately show ?thesis by (simp add: authFile_loadAuthorized)
qed

theorem duplicate_request_suppressed_witness:
  "list_ex (\<lambda>r. status r = ''pending'' \<and> samePair ''7'' ''7'' r)
     (pendingRequests (authorized (loadAuthorized askedOnce)))
   \<and> addAccessRequest askedOnce ''7'' (js ''Ann'') ''7'' (js ''Private Chat'') ''user''
        ''2024-01-02T00:00:00.000Z'' = (None, askedOnce)
   \<and> length (pendingRequests (authorized (snd (addAccessRequest askedOnce ''7'' (js ''Ann'') ''7''
        (js ''Private Chat'') ''user'' ''2024-01-02T00:00:00.000Z'')))) = 1
   \<and> authInv (fold runAuthOp
        [OpAddAccessRequest ''7'' (js ''Ann'') ''7'' (js ''Private Chat'') ''user'' ''t1'',
         OpRejectRequest 0,
         OpAddAccessRequest ''7'' (js ''Ann'') ''7'' (js ''Private Chat'') ''user'' ''t2'']
        (newAuthManager [''1''] None))"
proof -
  have h1: "list_ex (\<lambda>r. status r = ''pending'' \<and> samePair ''7'' ''7'' r)
              (pendingRequests (authorized (loadAuthorized askedOnce)))"
    by (simp add: askedOnce_eval samePair_def)
  have h2: "case (None :: auth_doc option) of None \<Rightarrow> True | Some d \<Rightarrow> onePending d"
    by simp
  show ?thesis
    using duplicate_request_suppressed[OF h1 h2, of "js ''Ann''" "js ''Private Chat''" "''user''"
        "''2024-01-02T00:00:00.000Z''"
        "[OpAddAccessRequest ''7'' (js ''Ann'') ''7'' (js ''Private Chat'') ''user'' ''t1'',
          OpRejectRequest 0,
          OpAddAccessRequest ''7'' (js ''Ann'') ''7'' (js ''Private Chat'') ''user'' ''t2'']" "[''1'']"]
      h1
    by (simp add: askedOnce_eval del: fold_simps runAuthOp.simps)
qed

text \<open>
  C10. \<open>addAccessRequest\<close> looks for any stored request of the pair, whatever its
  status. After \<open>rejectRequest\<close> or \<open>approveRequest\<close> of the request at a valid index, a
  new request of the same requester and chat answers \<open>null\<close> and leaves the state as
  loaded: no new pending request is created.
\<close>

theorem decided_request_still_suppresses:
  assumes "0 \<le> i" and "i < int (length (pendingRequests (authorized (loadAuthorized am))))"
    and "list_ex (samePair uid cid) (pendingRequests (authorized (loadAuthorized am')))"
  shows "(let r = pendingRequests (authorized (loadAuthorized am)) ! nat i;
              amR = snd (rejectRequest am i);
              amA = snd (approveRequest am i)
          in addAccessRequest amR (userId r) un (chatId r) ct ty now = (None, loadAuthorized amR)
           \<and> status (pendingRequests (authorized (loadAuthorized amR)) ! nat i) = ''rejected''
           \<and> addAccessRequest amA (userId r) un (chatId r) ct ty now = (None, loadAuthorized amA))
       \<and> addAccessRequest am' uid un cid ct ty now = (None, loadAuthorized am')"
proof -
  let ?reqs = "pendingRequests (authorized (loadAuthorized am))"
  let ?r = "?reqs ! nat i"
  have n: "nat i < length ?reqs" using assms(1,2) by simp
  have "list_ex (samePair (userId ?r) (chatId ?r))
          (pendingRequests (authorized (loadAuthorized (snd (rejectRequest am i)))))"
    unfolding rejectRequest_keeps_pair[OF assms(1,2)]
    by (rule list_ex_nth[of "nat i"]) (use n in \<open>simp_all add: samePair_def\<close>)
  then have rej: "addAccessRequest (snd (rejectRequest am i)) (userId ?r) un (chatId ?r) ct ty now
                = (None, loadAuthorized (snd (rejectRequest am i)))"
    by (rule addAccessRequest_exists)
  have "list_ex (samePair (userId ?r) (chatId ?r))
          (pendingRequests (authorized (loadAuthorized (snd (approveRequest am i)))))"
    unfolding approveRequest_keeps_pair[OF assms(1,2)]
    by (rule list_ex_nth[of "nat i"]) (use n in \<open>simp_all add: samePair_def\<close>)
  then have app: "addAccessRequest (snd (approveRequest am i)) (userId ?r) un (chatId ?r) ct ty now
                = (None, loadAuthorized (snd (approveRequest am i)))"
    by (rule addAccessRequest_exists)
  have st: "status (pendingRequests (authorized (loadAuthorized (snd (rejectRequest am i)))) ! nat i) = ''rejected''"
    unfolding rejectRequest_keeps_pair[OF assms(1,2)] using n by simp
  have gen: "addAccessRequest am' uid un cid ct ty now = (None, loadAuthorized am')"
    using assms(3) by (rule addAccessRequest_exists)
  show ?thesis using rej app st gen by (simp add: Let_def)
qed

theorem decided_request_still_suppresses_witness:
  "(0::int) \<le> 0 \<and> (0::int) < int (length (pendingRequests (authorized (loadAuthorized askedOnce))))
   \<and> addAccessRequest (snd (rejectRequest askedOnce 0)) ''7'' (js ''Ann'') ''7'' (js ''Private Chat'')
        ''user'' ''2024-01-03T00:00:00.000Z''
       = (None, loadAuthorized (snd (rejectRequest askedOnce 0)))
   \<and> status (pendingRequests (authorized (loadAuthorized (snd (rejectRequest askedOnce 0)))) ! 0) = ''rejected''
   \<and> addAccessRequest (snd (approveRequest askedOnce 0)) ''7'' (js ''Ann'') ''7'' (js ''Private Chat'')
        ''user'' ''2024-01-03T00:00:00.000Z''
       = (None, loadAuthorized (snd (approveRequest askedOnce 0)))"
proof -
  have h1: "(0::int) \<le> 0" by simp
  have h2: "(0::int) < int (length (pendingRequests (authorized (loadAuthorized askedOnce))))"
    by (simp add: askedOnce_eval)
  have h3: "list_ex (samePair ''7'' ''7'') (pendingRequests (authorized (loadAuthorized askedOnce)))"
    by (simp add: askedOnce_eval samePair_def)
  show ?thesis
    using decided_request_still_suppresses[OF h1 h2 h3, of "js ''Ann''" "js ''Private Chat''"
        "''user''" "''2024-01-03T00:00:00.000Z''"] h2
    by (simp add: askedOnce_eval Let_def)
qed

section \<open>Properties of the connection supervisor\<close>

lemma set_dropNth: "set (dropNth k xs) \<subseteq> set xs"
  unfolding dropNth_def by (auto dest: in_set_takeD in_set_dropD)

lemma length_dropNth: "length (dropNth k xs) \<le> length xs"
  unfolding dropNth_def by simp

lemma quiet_step:
  assumes "reconnectAttempts (manager sv) \<ge> maxReconnectAttempts (manager sv)"
    and "noSuccess e"
  shows "effects (superviseStep e sv) = effects sv
       \<and> set (pendingRetries (superviseStep e sv)) \<subseteq> set (pendingRetries sv)
       \<and> length (pendingRetries (superviseStep e sv)) \<le> length (pendingRetries sv)
       \<and> reconnectAttempts (manager (superviseStep e sv)) = reconnectAttempts (manager sv)
       \<and> maxReconnectAttempts (manager (superviseStep e sv)) = maxReconnectAttempts (manager sv)"
proof (cases e)
  case (HealthTick now p out)
  then show ?thesis
    using assms by (cases p) (simp_all add: healthCheck_def handleDisconnection_def scheduled_def)
next
  case (RetryTimer k out)
  then show ?thesis
    using assms set_dropNth[of k "pendingRetries sv"] length_dropNth[of k "pendingRetries sv"]
    by (simp add: handleDisconnection_def scheduled_def)
qed

lemma quiet_run:
  assumes "reconnectAttempts (manager sv) \<ge> maxReconnectAttempts (manager sv)"
    and "list_all noSuccess es"
  shows "effects (fold superviseStep es sv) = effects sv
       \<and> set (pendingRetries (fold superviseStep es sv)) \<subseteq> set (pendingRetries sv)
       \<and> length (pendingRetries (fold superviseStep es sv)) \<le> length (pendingRetries sv)
       \<and> reconnectAttempts (manager (fold superviseStep es sv)) = reconnectAttempts (manager sv)
       \<and> maxReconnectAttempts (manager (fold superviseStep es sv)) = maxReconnectAttempts (manager sv)"
  using assms
proof (induction es arbitrary: sv)
  case Nil
  then show ?case by simp
next
  case (Cons e es)
  have e: "noSuccess e" and es: "list_all noSuccess es" using Cons.prems(2) by simp_all
  note st = quiet_step[OF Cons.prems(1) e]
  have ex: "reconnectAttempts (manager (superviseStep e sv)) \<ge> maxReconnectAttempts (manager (superviseStep e sv))"
    using st Cons.prems(1) by simp
  note ih = Cons.IH[OF ex es]
  show ?case using st ih by (simp, meson order_trans subset_trans)
qed

lemma retry_fails:
  "n < 10 \<Longrightarrow>
   superviseStep (RetryTimer 0 StartThrows)
     \<lparr>manager = \<lparr>isConnected = False, reconnectAttempts = n, maxReconnectAttempts = 10,
                  reconnectDelay = d, lastSuccessfulConnection = None\<rparr>,
      pendingRetries = [p], effects = es\<rparr>
   = \<lparr>manager = \<lparr>isConnected = False, reconnectAttempts = n + 1, maxReconnectAttempts = 10,
                  reconnectDelay = min (d * (3 / 2)) 60000, lastSuccessfulConnection = None\<rparr>,
      pendingRetries = [min (d * (3 / 2)) 60000],
      effects = es @ [StopPolling, Sleep d, StartPolling, ScheduleRetry (min (d * (3 / 2)) 60000)]\<rparr>"
  by (simp add: handleDisconnection_def scheduled_def dropNth_def Let_def)

lemma first_fails:
  "superviseStep (HealthTick 1000 ProbeThrows StartThrows) newSupervisor
   = \<lparr>manager = \<lparr>isConnected = False, reconnectAttempts = 1, maxReconnectAttempts = 10,
                  reconnectDelay = 7500, lastSuccessfulConnection = None\<rparr>,
      pendingRetries = [7500],
      effects = [StopPolling, Sleep 5000, StartPolling, ScheduleRetry 7500]\<rparr>"
  by (simp add: newSupervisor_def newConnectionManager_def healthCheck_def handleDisconnection_def
        scheduled_def Let_def)

lemma tenFailures_eval:
  "manager (fold superviseStep tenFailures newSupervisor) =
     \<lparr>isConnected = False, reconnectAttempts = 10, maxReconnectAttempts = 10,
      reconnectDelay = 60000, lastSuccessfulConnection = None\<rparr>"
  "length (pendingRetries (fold superviseStep tenFailures newSupervisor)) = 1"
  "reconnects (effects (fold superviseStep tenFailures newSupervisor)) = 10"
  by (simp_all add: tenFailures_def first_fails retry_fails reconnects_def del: superviseStep.simps)

text \<open>
  C5. Once the attempt counter has reached the maximum, whatever follows short of a
  successful health check (failed or empty health checks, retry timers that fire),
  a further health-check failure calls nothing on the transport and schedules no
  timer: the effects are those of before, the pending timers are unchanged by it, and
  \<open>getStatus\<close> reports \<open>isConnected = false\<close> and the attempt count as it stands.
\<close>

theorem supervisor_stays_quiet:
  assumes "reconnectAttempts (manager sv) \<ge> maxReconnectAttempts (manager sv)"
    and "list_all noSuccess es"
  shows "(let sv1 = fold superviseStep es sv;
              sv2 = superviseStep (HealthTick t ProbeThrows out) sv1
          in effects sv2 = effects sv
           \<and> reconnects (effects sv2) = reconnects (effects sv)
           \<and> pendingRetries sv2 = pendingRetries sv1
           \<and> length (pendingRetries sv1) \<le> length (pendingRetries sv)
           \<and> st_isConnected (getStatus (manager sv2) now) = False
           \<and> st_reconnectAttempts (getStatus (manager sv2) now) = reconnectAttempts (manager sv)
           \<and> reconnectAttempts (manager sv2) \<ge> maxReconnectAttempts (manager sv2))"
proof -
  let ?sv1 = "fold superviseStep es sv"
  note r = quiet_run[OF assms]
  have ex: "reconnectAttempts (manager ?sv1) \<ge> maxReconnectAttempts (manager ?sv1)"
    using r assms(1) by simp
  have step: "superviseStep (HealthTick t ProbeThrows out) ?sv1
              = ?sv1\<lparr>manager := (manager ?sv1)\<lparr>isConnected := False\<rparr>\<rparr>"
    using ex by (simp add: healthCheck_def handleDisconnection_def scheduled_def)
  show ?thesis
    unfolding Let_def step using r ex by (simp add: getStatus_def)
qed

theorem supervisor_stays_quiet_witness:
  "reconnectAttempts (manager (fold superviseStep tenFailures newSupervisor)) = 10
   \<and> maxReconnectAttempts (manager (fold superviseStep tenFailures newSupervisor)) = 10
   \<and> reconnects (effects (fold superviseStep tenFailures newSupervisor)) = 10
   \<and> list_all noSuccess afterGivingUp
   \<and> (let sv1 = fold superviseStep afterGivingUp (fold superviseStep tenFailures newSupervisor);
           sv2 = superviseStep (HealthTick 5000 ProbeThrows Restarted) sv1
       in effects sv2 = effects (fold superviseStep tenFailures newSupervisor)
        \<and> reconnects (effects sv2) = reconnects (effects (fold superviseStep tenFailures newSupervisor))
        \<and> pendingRetries sv2 = pendingRetries sv1
        \<and> length (pendingRetries sv1) \<le> length (pendingRetries (fold superviseStep tenFailures newSupervisor))
        \<and> st_isConnected (getStatus (manager sv2) 6000) = False
        \<and> st_reconnectAttempts (getStatus (manager sv2) 6000)
            = reconnectAttempts (manager (fold superviseStep tenFailures newSupervisor))
        \<and> reconnectAttempts (manager sv2) \<ge> maxReconnectAttempts (manager sv2))"
proof -
  let ?sv = "fold superviseStep tenFailures newSupervisor"
  have h1: "reconnectAttempts (manager ?sv) \<ge> maxReconnectAttempts (manager ?sv)"
    by (simp add: tenFailures_eval)
  have h2: "list_all noSuccess afterGivingUp"
    by (simp add: afterGivingUp_def)
  have a: "reconnectAttempts (manager ?sv) = 10" and m: "maxReconnectAttempts (manager ?sv) = 10"
    and r: "reconnects (effects ?sv) = 10"
    by (simp_all add: tenFailures_eval)
  show ?thesis
    by (intro conjI a m r h2 supervisor_stays_quiet[OF h1 h2])
qed

section \<open>Properties of free-text structuring\<close>

lemmas eval_defs = js_def trim_def isSpace_def matchAll_def matchAt_def urlRegex_def wordI_def
  word_def litI_def lit_def Plus_def stripUrls_def processLine_def testAtStart_def replaceAtStart_def
  bulletMarker_def numberMarker_def isDigit_def replaceAll_def Let_def

text \<open>
  C6. On the three-line input \<open>Buy milk\<close>, \<open>- 2% \<close>, \<open>- https://example.com/milk\<close> the
  title and the urls are as claimed. The third line, once its URL is removed and the
  rest trimmed, is the bare marker \<open>-\<close>; it no longer matches the marker pattern, which
  asks for white space after the marker, and is stored as a detail of its own. The
  details are \<open>- 2%\<close> and \<open>- -\<close>, and the description has the extra line.
\<close>

theorem structuring_keeps_bare_marker:
  "extractUrlsFromText milk =
     \<lparr>cleanText = js ''Buy milk'',
      urls = [js ''https://example.com/milk''],
      listItems = [js ''- 2%'', js ''- -''],
      description = js ''Details:'' @ [10] @ js ''- 2%'' @ [10] @ js ''- -'' @ [10, 10]
                    @ js ''Links:'' @ [10] @ js ''- https://example.com/milk''\<rparr>
   \<and> description (extractUrlsFromText milk)
       \<noteq> js ''Details:'' @ [10] @ js ''- 2%'' @ [10, 10] @ js ''Links:'' @ [10] @ js ''- https://example.com/milk''"
  by (simp add: extractUrlsFromText_def milk_def eval_defs)

section \<open>Properties of the credential resolver and the sessions\<close>

lemmas parse_defs = parseCredentials_def parseLine_def apiKeyPrefix_def tokenPrefix_def
  separatorTail_def restOfLine_def captureAt_def isLineTerminator_def

lemma js_eq_iff: "(js a = js b) = (a = b)"
  by (simp add: js_def inj_map_eq_map inj_def)

lemma js_empty_iff: "(js a = []) = (a = [])"
  by (simp add: js_def)

lemma length_js: "length (js a) = length a"
  by (simp add: js_def)

lemma parse_eval:
  "parseCredentials goodText = (js ''k1'', js ''t1'')"
  "parseCredentials badText = (js ''abc'', js ''xyz'')"
  "parseCredentials helloText = ([], [])"
  by (simp_all add: goodText_def badText_def helloText_def parse_defs eval_defs)

lemma plain_texts:
  "goodText \<noteq> []" "\<not> startsWith goodText (js ''/'')" "goodText \<noteq> js ''/cancel''"
  "badText \<noteq> []" "\<not> startsWith badText (js ''/'')" "badText \<noteq> js ''/cancel''"
  "helloText \<noteq> []" "\<not> startsWith helloText (js ''/'')" "helloText \<noteq> js ''/cancel''"
  by (simp_all add: goodText_def badText_def helloText_def js_def startsWith_def)

lemma tokensFile_removeToken:
  assumes "fst (removeToken tm cid now)"
  shows "\<exists>f. tokensFile (snd (removeToken tm cid now)) = Some f \<and> f (toString cid) = None"
  using assms by (auto simp: removeToken_def saveTokens_def Let_def split: if_splits)

lemma defaults_removeToken:
  "defaultApiKey (snd (removeToken tm cid now)) = defaultApiKey tm"
  "defaultToken (snd (removeToken tm cid now)) = defaultToken tm"
  by (simp_all add: removeToken_def saveTokens_def Let_def)

lemma defaults_loadTokens:
  "defaultApiKey (loadTokens tm) = defaultApiKey tm"
  "defaultToken (loadTokens tm) = defaultToken tm"
  "tokensFile (loadTokens tm) = tokensFile tm"
  by (simp_all add: loadTokens_def split: option.splits)

lemma getToken_absent:
  assumes "tokensFile tm = Some f" and "f (toString cid) = None"
  shows "fst (getToken tm cid now) =
           \<lparr>cred_apiKey = defaultApiKey tm, cred_token = defaultToken tm,
            cred_workspace = js ''Default Workspace''\<rparr>"
    and "fst (hasCustomToken tm cid) = False"
  using assms by (simp_all add: getToken_def hasCustomToken_def loadTokens_def Let_def)

lemma getChatConfig_clear: "getChatConfig (clearChatConfig f cid) cid = noConfig"
  by (simp add: getChatConfig_def clearChatConfig_def loadConfig_def)

lemma removeToken_after_load:
  "fst (hasCustomToken tm cid) \<Longrightarrow> fst (removeToken (snd (hasCustomToken tm cid)) cid now)"
  by (simp add: hasCustomToken_def removeToken_def Let_def)

lemma handleRemoveWorkspace_state:
  assumes "fst (hasCustomToken (tokenManager b) (chat_id msg))"
  shows "tokenManager (fst (handleRemoveWorkspace w b msg))
           = snd (removeToken (snd (hasCustomToken (tokenManager b) (chat_id msg))) (chat_id msg) (clock w))"
    and "configFile (fst (handleRemoveWorkspace w b msg)) = clearChatConfig (configFile b) (chat_id msg)"
    and "trelloServices (fst (handleRemoveWorkspace w b msg)) = {}"
  using assms removeToken_after_load[OF assms, of "clock w"]
  by (simp_all add: handleRemoveWorkspace_def Let_def sendMessage_def case_prod_beta)

text \<open>
  C7. When a chat has a credential record, \<open>handleRemoveWorkspace\<close> leaves a state in
  which \<open>getToken\<close> for that chat returns the default pair with the label
  \<open>Default Workspace\<close>, \<open>hasCustomToken\<close> is false, the chat's configuration is empty
  (no board, no list) and the service cache is empty, whether or not the confirmation
  is delivered. The same holds for \<open>removeToken\<close> alone whenever it answers \<open>true\<close>.
\<close>

theorem removed_workspace_resolves_to_default:
  assumes "fst (hasCustomToken (tokenManager b) (chat_id msg))"
  shows "(let b' = fst (handleRemoveWorkspace w b msg)
          in fst (getToken (tokenManager b') (chat_id msg) now)
               = \<lparr>cred_apiKey = defaultApiKey (tokenManager b),
                  cred_token = defaultToken (tokenManager b),
                  cred_workspace = js ''Default Workspace''\<rparr>
           \<and> fst (hasCustomToken (tokenManager b') (chat_id msg)) = False
           \<and> getChatConfig (configFile b') (chat_id msg) = noConfig
           \<and> trelloServices b' = {})
       \<and> (fst (removeToken tm cid now) \<longrightarrow>
            fst (getToken (snd (removeToken tm cid now)) cid now')
              = \<lparr>cred_apiKey = defaultApiKey tm, cred_token = defaultToken tm,
                 cred_workspace = js ''Default Workspace''\<rparr>)"
proof -
  let ?cid = "chat_id msg"
  let ?tm1 = "snd (hasCustomToken (tokenManager b) ?cid)"
  have rm: "fst (removeToken ?tm1 ?cid (clock w))"
    using assms by (rule removeToken_after_load)
  obtain f where f: "tokensFile (snd (removeToken ?tm1 ?cid (clock w))) = Some f" "f (toString ?cid) = None"
    using tokensFile_removeToken[OF rm] by blast
  have d: "defaultApiKey (snd (removeToken ?tm1 ?cid (clock w))) = defaultApiKey (tokenManager b)"
          "defaultToken (snd (removeToken ?tm1 ?cid (clock w))) = defaultToken (tokenManager b)"
    by (simp_all add: defaults_removeToken hasCustomToken_def Let_def defaults_loadTokens)
  have handler: "(let b' = fst (handleRemoveWorkspace w b msg)
          in fst (getToken (tokenManager b') ?cid now)
               = \<lparr>cred_apiKey = defaultApiKey (tokenManager b),
                  cred_token = defaultToken (tokenManager b),
                  cred_workspace = js ''Default Workspace''\<rparr>
           \<and> fst (hasCustomToken (tokenManager b') ?cid) = False
           \<and> getChatConfig (configFile b') ?cid = noConfig
           \<and> trelloServices b' = {})"
    unfolding Let_def handleRemoveWorkspace_state[OF assms]
    using getToken_absent[OF f] d by (simp add: getChatConfig_clear)
  have direct: "fst (removeToken tm cid now) \<longrightarrow>
            fst (getToken (snd (removeToken tm cid now)) cid now')
              = \<lparr>cred_apiKey = defaultApiKey tm, cred_token = defaultToken tm,
                 cred_workspace = js ''Default Workspace''\<rparr>"
  proof
    assume r: "fst (removeToken tm cid now)"
    obtain g where g: "tokensFile (snd (removeToken tm cid now)) = Some g" "g (toString cid) = None"
      using tokensFile_removeToken[OF r] by blast
    show "fst (getToken (snd (removeToken tm cid now)) cid now')
              = \<lparr>cred_apiKey = defaultApiKey tm, cred_token = defaultToken tm,
                 cred_workspace = js ''Default Workspace''\<rparr>"
      using getToken_absent(1)[OF g] by (simp add: defaults_removeToken)
  qed
  show ?thesis using handler direct by blast
qed

lemma setupBot_eval:
  "userSessions setupBot ''42'' =
     Some \<lparr>step = ''waiting_for_credentials'', stype = ''setworkspace'', data = None, s_chatId = 42\<rparr>"
  "tokenManager setupBot = demoTokens"
  "configFile setupBot = configFile demoBot"
  "sent setupBot = [(42, SetupInstructions)]"
  by (simp_all add: setupBot_def handleSetWorkspace_def setupStart_def messageOf_def sessionKeyOf_def
        isGroupChat_def toString_eval demoBot_def sendMessage_def demoWorld_def)

lemma customBot_eval:
  "tokens (tokenManager customBot) ''42'' =
     Some \<lparr>token = js ''t1'', apiKey = js ''k1'', workspace = js ''ann'',
           addedAt = ''2024-01-01T00:00:00.000Z'', lastUsed = ''2024-01-01T00:00:00.000Z''\<rparr>"
  "userSessions customBot ''42'' = None"
  "getChatConfig (configFile customBot) 42 = noConfig"
  "fst (hasCustomToken (tokenManager customBot) 42) = True"
  "fst (getToken (tokenManager customBot) 42 now) =
     \<lparr>cred_apiKey = js ''k1'', cred_token = js ''t1'', cred_workspace = js ''ann''\<rparr>"
  "defaultApiKey (tokenManager customBot) = js ''KEY0''"
  "defaultToken (tokenManager customBot) = js ''TOK0''"
  by (simp_all add: customBot_def onMessage_def handleMentions_def goodPair_def messageOf_def
        sessionKeyOf_def isGroupChat_def toString_eval setupBot_eval handleSessionMessage_def
        handleWorkspaceSetup_def parse_eval friendlyWorld_def demoWorld_def setToken_def
        saveTokens_def demoTokens_def workspaceLabel_def sendMessage_def clearChatConfig_def
        getChatConfig_def loadConfig_def demoBot_def hasCustomToken_def loadTokens_def
        getToken_def Let_def js_eq_iff js_empty_iff plain_texts)

theorem removed_workspace_resolves_to_default_witness:
  "fst (hasCustomToken (tokenManager customBot) (chat_id goodPair))
   \<and> fst (getToken (tokenManager customBot) 42 ''t'')
       = \<lparr>cred_apiKey = js ''k1'', cred_token = js ''t1'', cred_workspace = js ''ann''\<rparr>
   \<and> fst (getToken (tokenManager (fst (handleRemoveWorkspace deafWorld customBot goodPair))) 42 ''t'')
       = \<lparr>cred_apiKey = js ''KEY0'', cred_token = js ''TOK0'', cred_workspace = js ''Default Workspace''\<rparr>
   \<and> getChatConfig (configFile (fst (handleRemoveWorkspace deafWorld customBot goodPair))) 42 = noConfig"
proof -
  have c: "chat_id goodPair = 42" by (simp add: goodPair_def messageOf_def)
  have h: "fst (hasCustomToken (tokenManager customBot) (chat_id goodPair))"
    by (simp add: c customBot_eval)
  show ?thesis
    using removed_workspace_resolves_to_default[OF h, of deafWorld "''t''"] h
    by (simp add: c customBot_eval Let_def)
qed

lemma handleWorkspaceSetup_changes_tokens:
  assumes "tokenManager (fst (handleWorkspaceSetup w b msg sess)) \<noteq> tokenManager b"
  shows "\<exists>t. msg_text msg = Some t \<and> fst (parseCredentials t) \<noteq> [] \<and> snd (parseCredentials t) \<noteq> []
           \<and> valid (validateToken_result w (fst (parseCredentials t)) (snd (parseCredentials t)))"
proof (cases "msg_text msg")
  case None
  then show ?thesis using assms by (simp add: handleWorkspaceSetup_def)
next
  case (Some t)
  show ?thesis
  proof (rule ccontr)
    assume "\<not> ?thesis"
    then have "fst (parseCredentials t) = [] \<or> snd (parseCredentials t) = []
               \<or> \<not> valid (validateToken_result w (fst (parseCredentials t)) (snd (parseCredentials t)))"
      using Some by auto
    then have "tokenManager (fst (handleWorkspaceSetup w b msg sess)) = tokenManager b"
      using Some
      by (auto simp: handleWorkspaceSetup_def Let_def sendMessage_def case_prod_beta)
    then show False using assms by simp
  qed
qed

text \<open>
  C4. When the text parses to a pair and \<open>validateToken\<close> answers \<open>valid: false\<close>,
  \<open>handleWorkspaceSetup\<close> changes neither the token manager (memory and file) nor the
  configuration, the sessions or the cache; it reports the validation error, and the
  only change is that report when it is delivered. Conversely the token manager changes
  only for a text whose pair has been validated.
\<close>

theorem invalid_credentials_leave_store_untouched:
  assumes "msg_text msg = Some txt" and "parseCredentials txt = (key, tok)"
    and "key \<noteq> []" and "tok \<noteq> []" and "\<not> valid (validateToken_result w key tok)"
  shows "(let b' = fst (handleWorkspaceSetup w b msg sess);
              report = InvalidCredentials (v_error (validateToken_result w key tok)) (length key) (length tok)
          in tokenManager b' = tokenManager b
           \<and> configFile b' = configFile b
           \<and> userSessions b' = userSessions b
           \<and> trelloServices b' = trelloServices b
           \<and> sent b' = sent b @ (if sendMessage_ok w (chat_id msg) report
                                   then [(chat_id msg, report)] else []))
       \<and> (\<forall>msg' sess'.
            tokenManager (fst (handleWorkspaceSetup w b msg' sess')) \<noteq> tokenManager b \<longrightarrow>
            (\<exists>t. msg_text msg' = Some t
                \<and> fst (parseCredentials t) \<noteq> [] \<and> snd (parseCredentials t) \<noteq> []
                \<and> valid (validateToken_result w (fst (parseCredentials t)) (snd (parseCredentials t)))))"
proof -
  have first: "(let b' = fst (handleWorkspaceSetup w b msg sess);
              report = InvalidCredentials (v_error (validateToken_result w key tok)) (length key) (length tok)
          in tokenManager b' = tokenManager b
           \<and> configFile b' = configFile b
           \<and> userSessions b' = userSessions b
           \<and> trelloServices b' = trelloServices b
           \<and> sent b' = sent b @ (if sendMessage_ok w (chat_id msg) report
                                   then [(chat_id msg, report)] else []))"
    using assms by (simp add: handleWorkspaceSetup_def Let_def sendMessage_def)
  show ?thesis
    using first handleWorkspaceSetup_changes_tokens by blast
qed

lemma retryBot_eval:
  "tokenManager retryBot = tokenManager customBot"
  "userSessions retryBot ''42'' =
     Some \<lparr>step = ''waiting_for_credentials'', stype = ''setworkspace'', data = None, s_chatId = 42\<rparr>"
  by (simp_all add: retryBot_def handleSetWorkspace_def setupStart_def messageOf_def sessionKeyOf_def
        isGroupChat_def toString_eval sendMessage_def demoWorld_def)

lemma laterWorld_eval:
  "valid (validateToken_result laterWorld (js ''abc'') (js ''xyz'')) = False"
  "valid (validateToken_result laterWorld (js ''k1'') (js ''t1'')) = True"
  "v_error (validateToken_result laterWorld (js ''abc'') (js ''xyz'')) = js ''invalid key''"
  "sendMessage_ok laterWorld c m = True"
  "clock laterWorld = ''2024-02-02T00:00:00.000Z''"
  by (simp_all add: laterWorld_def friendlyWorld_def demoWorld_def js_eq_iff)

lemma retry_good_changes:
  "tokens (tokenManager (fst (handleWorkspaceSetup laterWorld retryBot goodPair s))) ''42''
     \<noteq> tokens (tokenManager retryBot) ''42''"
  by (simp add: handleWorkspaceSetup_def goodPair_def messageOf_def parse_eval js_empty_iff Let_def
        laterWorld_eval setToken_def saveTokens_def sendMessage_def toString_eval retryBot_eval
        customBot_eval)

theorem invalid_credentials_leave_store_untouched_witness:
  "parseCredentials badText = (js ''abc'', js ''xyz'')
   \<and> \<not> valid (validateToken_result laterWorld (js ''abc'') (js ''xyz''))
   \<and> tokenManager (fst (handleWorkspaceSetup laterWorld retryBot badPair setupSession)) = tokenManager retryBot
   \<and> tokens (tokenManager (fst (handleWorkspaceSetup laterWorld retryBot badPair setupSession))) ''42''
       = Some \<lparr>token = js ''t1'', apiKey = js ''k1'', workspace = js ''ann'',
               addedAt = ''2024-01-01T00:00:00.000Z'', lastUsed = ''2024-01-01T00:00:00.000Z''\<rparr>
   \<and> sent (fst (handleWorkspaceSetup laterWorld retryBot badPair setupSession))
       = sent retryBot @ [(42, InvalidCredentials (js ''invalid key'') 3 3)]
   \<and> tokenManager (fst (handleWorkspaceSetup laterWorld retryBot goodPair setupSession)) \<noteq> tokenManager retryBot
   \<and> valid (validateToken_result laterWorld (fst (parseCredentials goodText)) (snd (parseCredentials goodText)))"
proof -
  have h1: "msg_text badPair = Some badText" by (simp add: badPair_def messageOf_def)
  have h2: "parseCredentials badText = (js ''abc'', js ''xyz'')" by (rule parse_eval)
  have h3: "js ''abc'' \<noteq> []" and h4: "js ''xyz'' \<noteq> []" by (simp_all add: js_empty_iff)
  have h5: "\<not> valid (validateToken_result laterWorld (js ''abc'') (js ''xyz''))"
    by (simp add: laterWorld_eval)
  note T = invalid_credentials_leave_store_untouched[OF h1 h2 h3 h4 h5, of retryBot setupSession]
  have c: "chat_id badPair = 42" by (simp add: badPair_def messageOf_def)
  have A: "tokenManager (fst (handleWorkspaceSetup laterWorld retryBot badPair setupSession)) = tokenManager retryBot"
    and S: "sent (fst (handleWorkspaceSetup laterWorld retryBot badPair setupSession))
       = sent retryBot @ [(42, InvalidCredentials (js ''invalid key'') 3 3)]"
    using T by (simp_all add: Let_def laterWorld_eval c length_js)
  have ne: "tokenManager (fst (handleWorkspaceSetup laterWorld retryBot goodPair setupSession)) \<noteq> tokenManager retryBot"
    using retry_good_changes[of setupSession] by auto
  have "\<exists>t. msg_text goodPair = Some t
           \<and> fst (parseCredentials t) \<noteq> [] \<and> snd (parseCredentials t) \<noteq> []
           \<and> valid (validateToken_result laterWorld (fst (parseCredentials t)) (snd (parseCredentials t)))"
    using T ne by blast
  then have V: "valid (validateToken_result laterWorld (fst (parseCredentials goodText)) (snd (parseCredentials goodText)))"
    by (simp add: goodPair_def messageOf_def)
  show ?thesis
    using h2 h5 A S ne V by (simp add: retryBot_eval customBot_eval)
qed

lemma handleWorkspaceSetup_threw:
  assumes "snd (handleWorkspaceSetup w b msg sess) = Threw"
  shows "fst (handleWorkspaceSetup w b msg sess) = b
       \<or> userSessions (fst (handleWorkspaceSetup w b msg sess)) (sessionKeyOf msg) = None"
  using assms
  by (auto simp: handleWorkspaceSetup_def Let_def sendMessage_def case_prod_beta
        split: option.splits if_splits)

lemma handleWorkspaceSetup_session:
  assumes "userSessions b (sessionKeyOf msg) = Some sess"
    and "userSessions (fst (handleWorkspaceSetup w b msg sess0)) (sessionKeyOf msg) = Some s'"
  shows "s' = sess"
  using assms
  by (auto simp: handleWorkspaceSetup_def Let_def sendMessage_def case_prod_beta
        split: option.splits if_splits)

lemma ideaTry_session:
  assumes "userSessions (fst (ideaTry w b msg sess)) (sessionKeyOf msg) = Some s'"
    and "snd (ideaTry w b msg sess) \<noteq> Raised"
  shows "snd (ideaTry w b msg sess) = Completed \<and> step s' = ''waiting_for_list''"
  using assms
  by (auto simp: ideaTry_def Let_def sendMessage_def case_prod_beta getTrelloService_def
        split: option.splits if_splits)

text \<open>
  C3, as amended. For an idea session in step \<open>waiting_for_idea\<close>, when the \<open>try\<close> block
  raises, the session is deleted and then the error is reported: the session is gone
  whether or not the report is delivered, and it is gone whenever the handler rejects.
  A workspace-setup session has no such boundary: when its handler rejects, either
  nothing at all has changed, so the session is still stored, or the credentials were
  stored and the session deleted before. In both dialogs a session found under the key
  afterwards is the session as it was, or the session advanced to \<open>waiting_for_list\<close>
  by a \<open>try\<close> block that ran to its end.
\<close>

theorem session_error_boundary:
  assumes "userSessions b (sessionKeyOf msg) = Some sess"
  shows "(stype sess \<noteq> ''setworkspace'' \<longrightarrow> step sess = ''waiting_for_idea'' \<longrightarrow>
          snd (ideaTry w b msg sess) = Raised \<longrightarrow>
            (let b' = fst (handleSessionMessage w b msg sess)
             in userSessions b' (sessionKeyOf msg) = None
              \<and> sent b' = sent (fst (ideaTry w b msg sess))
                            @ (if sendMessage_ok w (chat_id msg) SessionError
                               then [(chat_id msg, SessionError)] else [])))
       \<and> (stype sess \<noteq> ''setworkspace'' \<longrightarrow> step sess = ''waiting_for_idea'' \<longrightarrow>
          snd (handleSessionMessage w b msg sess) = Threw \<longrightarrow>
            userSessions (fst (handleSessionMessage w b msg sess)) (sessionKeyOf msg) = None)
       \<and> (stype sess = ''setworkspace'' \<longrightarrow> snd (handleSessionMessage w b msg sess) = Threw \<longrightarrow>
            fst (handleSessionMessage w b msg sess) = b
            \<or> userSessions (fst (handleSessionMessage w b msg sess)) (sessionKeyOf msg) = None)
       \<and> (\<forall>s'. userSessions (fst (handleSessionMessage w b msg sess)) (sessionKeyOf msg) = Some s' \<longrightarrow>
            s' = sess
            \<or> (stype sess \<noteq> ''setworkspace'' \<and> step sess = ''waiting_for_idea''
               \<and> snd (ideaTry w b msg sess) = Completed \<and> step s' = ''waiting_for_list''))"
proof (intro conjI impI allI)
  assume "stype sess \<noteq> ''setworkspace''" "step sess = ''waiting_for_idea''"
    "snd (ideaTry w b msg sess) = Raised"
  then show "let b' = fst (handleSessionMessage w b msg sess)
             in userSessions b' (sessionKeyOf msg) = None
              \<and> sent b' = sent (fst (ideaTry w b msg sess))
                            @ (if sendMessage_ok w (chat_id msg) SessionError
                               then [(chat_id msg, SessionError)] else [])"
    by (cases "ideaTry w b msg sess") (simp add: handleSessionMessage_def Let_def sendMessage_def)
next
  assume idea: "stype sess \<noteq> ''setworkspace''" "step sess = ''waiting_for_idea''"
    and threw: "snd (handleSessionMessage w b msg sess) = Threw"
  obtain b1 e where it: "ideaTry w b msg sess = (b1, e)" by (cases "ideaTry w b msg sess")
  show "userSessions (fst (handleSessionMessage w b msg sess)) (sessionKeyOf msg) = None"
  proof (cases e)
    case Completed
    then show ?thesis using idea threw it by (simp add: handleSessionMessage_def Let_def)
  next
    case (ReturnedPromise oc)
    have "userSessions b1 (sessionKeyOf msg) = None"
    proof (rule ccontr)
      assume "userSessions b1 (sessionKeyOf msg) \<noteq> None"
      then obtain s' where "userSessions (fst (ideaTry w b msg sess)) (sessionKeyOf msg) = Some s'"
        using it by auto
      then have "snd (ideaTry w b msg sess) = Completed"
        using ideaTry_session[of w b msg sess s'] it ReturnedPromise by simp
      then show False using it ReturnedPromise by simp
    qed
    then show ?thesis
      using idea it ReturnedPromise by (simp add: handleSessionMessage_def Let_def)
  next
    case Raised
    then show ?thesis
      using idea it by (simp add: handleSessionMessage_def Let_def sendMessage_def)
  qed
next
  assume "stype sess = ''setworkspace''" "snd (handleSessionMessage w b msg sess) = Threw"
  then show "fst (handleSessionMessage w b msg sess) = b
            \<or> userSessions (fst (handleSessionMessage w b msg sess)) (sessionKeyOf msg) = None"
    using handleWorkspaceSetup_threw[of w b msg sess]
    by (simp add: handleSessionMessage_def Let_def)
next
  fix s'
  assume s': "userSessions (fst (handleSessionMessage w b msg sess)) (sessionKeyOf msg) = Some s'"
  show "s' = sess
            \<or> (stype sess \<noteq> ''setworkspace'' \<and> step sess = ''waiting_for_idea''
               \<and> snd (ideaTry w b msg sess) = Completed \<and> step s' = ''waiting_for_list'')"
  proof (cases "stype sess = ''setworkspace''")
    case True
    then show ?thesis
      using s' handleWorkspaceSetup_session[OF assms, of w sess s']
      by (simp add: handleSessionMessage_def Let_def)
  next
    case False
    show ?thesis
    proof (cases "step sess = ''waiting_for_idea''")
      case idea: True
      obtain b1 e where it: "ideaTry w b msg sess = (b1, e)" by (cases "ideaTry w b msg sess")
      show ?thesis
      proof (cases e)
        case Completed
        then show ?thesis
          using s' it False idea ideaTry_session[of w b msg sess s']
          by (simp add: handleSessionMessage_def Let_def)
      next
        case (ReturnedPromise oc)
        then show ?thesis
          using s' it False idea ideaTry_session[of w b msg sess s']
          by (simp add: handleSessionMessage_def Let_def)
      next
        case Raised
        then show ?thesis
          using s' it False idea
          by (simp add: handleSessionMessage_def Let_def sendMessage_def split: if_splits)
      qed
    next
      case other: False
      then show ?thesis
        using s' False assms by (simp add: handleSessionMessage_def Let_def)
    qed
  qed
qed

text \<open>
  C3 as stated fails: in a workspace-setup session, a text that is no credential pair
  is answered by a message; when the transport rejects that message the handler
  rejects, the listener logs the exception, and the session is still stored.
\<close>

theorem workspace_session_survives_exception:
  "userSessions setupBot (sessionKeyOf notAPair) = Some setupSession
   \<and> snd (handleMentions deafWorld setupBot notAPair) = Threw
   \<and> userSessions (onMessage deafWorld setupBot notAPair) (sessionKeyOf notAPair) = Some setupSession"
  by (simp add: onMessage_def handleMentions_def notAPair_def messageOf_def sessionKeyOf_def
        isGroupChat_def toString_eval setupBot_eval plain_texts handleSessionMessage_def
        handleWorkspaceSetup_def parse_eval sendMessage_def deafWorld_def demoWorld_def
        setupSession_def Let_def)

lemma ideaTry_completed:
  assumes "data sess = Some d" and "msg_text msg = Some txt"
    and "hasBoard (getChatConfig (configFile b) (chat_id msg))"
    and "getBoardLists_result w
           (cred_apiKey (fst (getToken (tokenManager b) (chat_id msg) (clock w))))
           (cred_token (fst (getToken (tokenManager b) (chat_id msg) (clock w))))
           (the (boardId (getChatConfig (configFile b) (chat_id msg)))) = Some ls"
    and "ls \<noteq> []" and "sendMessage_ok w (chat_id msg) (SelectList txt ls)"
  shows "snd (ideaTry w b msg sess) = Completed"
    and "userSessions (fst (ideaTry w b msg sess)) (sessionKeyOf msg)
           = Some (sess\<lparr>data := Some (d\<lparr>idea := Some txt,
                                          d_userName := (if d_userName d = [] then senderName msg
                                                         else d_userName d)\<rparr>),
                        step := ''waiting_for_list''\<rparr>)"
  using assms
  by (simp_all add: ideaTry_def Let_def sendMessage_def getTrelloService_def case_prod_beta)

lemma cancel_deletes:
  assumes "msg_text cancel = Some (js ''/cancel'')" and "userSessions b (sessionKeyOf cancel) \<noteq> None"
  shows "userSessions (onMessage w b cancel) (sessionKeyOf cancel) = None"
  using assms
  by (auto simp: onMessage_def handleMentions_def Let_def sendMessage_def js_empty_iff)

text \<open>
  C8, as amended. A stored idea session in step \<open>waiting_for_idea\<close> that receives a text
  which is not a command, with a board selected, a non-empty list of lists and the
  list prompt delivered, is afterwards stored under the same key in step
  \<open>waiting_for_list\<close> with the idea recorded. A \<open>/cancel\<close> under the same key then deletes
  it, whatever the transport does.
\<close>

theorem idea_session_advances:
  assumes "userSessions b (sessionKeyOf msg) = Some sess"
    and "stype sess \<noteq> ''setworkspace''" and "step sess = ''waiting_for_idea''"
    and "data sess = Some d"
    and "msg_text msg = Some txt" and "txt \<noteq> []" and "\<not> startsWith txt (js ''/'')"
    and "hasBoard (getChatConfig (configFile b) (chat_id msg))"
    and "getBoardLists_result w
           (cred_apiKey (fst (getToken (tokenManager b) (chat_id msg) (clock w))))
           (cred_token (fst (getToken (tokenManager b) (chat_id msg) (clock w))))
           (the (boardId (getChatConfig (configFile b) (chat_id msg)))) = Some ls"
    and "ls \<noteq> []"
    and "sendMessage_ok w (chat_id msg) (SelectList txt ls)"
    and "msg_text cancel = Some (js ''/cancel'')" and "sessionKeyOf cancel = sessionKeyOf msg"
  shows "(\<exists>s'. userSessions (onMessage w b msg) (sessionKeyOf msg) = Some s'
              \<and> step s' = ''waiting_for_list''
              \<and> map_option idea (data s') = Some (Some txt))
       \<and> userSessions (onMessage w' (onMessage w b msg) cancel) (sessionKeyOf msg) = None"
proof -
  let ?key = "sessionKeyOf msg"
  have notcancel: "txt \<noteq> js ''/cancel''"
    using assms(7) by (auto simp: startsWith_def js_def)
  have adv: "\<exists>s'. userSessions (onMessage w b msg) ?key = Some s'
              \<and> step s' = ''waiting_for_list''
              \<and> map_option idea (data s') = Some (Some txt)"
  proof (cases "isGroupChat msg")
    case True
    let ?d1 = "d\<lparr>d_userName := senderName msg, originalUserId := from_id msg\<rparr>"
    let ?sess1 = "sess\<lparr>data := Some ?d1\<rparr>"
    let ?b1 = "b\<lparr>userSessions := (userSessions b)(?key \<mapsto> ?sess1)\<rparr>"
    have om: "onMessage w b msg = fst (handleSessionMessage w ?b1 msg ?sess1)"
      using assms(1-7) notcancel True by (simp add: onMessage_def handleMentions_def Let_def)
    have d1: "data ?sess1 = Some ?d1" by simp
    have board: "hasBoard (getChatConfig (configFile ?b1) (chat_id msg))" using assms(8) by simp
    have ls: "getBoardLists_result w
           (cred_apiKey (fst (getToken (tokenManager ?b1) (chat_id msg) (clock w))))
           (cred_token (fst (getToken (tokenManager ?b1) (chat_id msg) (clock w))))
           (the (boardId (getChatConfig (configFile ?b1) (chat_id msg)))) = Some ls"
      using assms(9) by simp
    note c = ideaTry_completed[OF d1 assms(5) board ls assms(10) assms(11)]
    show ?thesis
      unfolding om using c assms(2,3)
      by (cases "ideaTry w ?b1 msg ?sess1") (simp add: handleSessionMessage_def Let_def)
  next
    case False
    have om: "onMessage w b msg = fst (handleSessionMessage w b msg sess)"
      using assms(1-7) notcancel False by (simp add: onMessage_def handleMentions_def Let_def)
    note c = ideaTry_completed[OF assms(4) assms(5) assms(8) assms(9) assms(10) assms(11)]
    show ?thesis
      unfolding om using c assms(2,3)
      by (cases "ideaTry w b msg sess") (simp add: handleSessionMessage_def Let_def)
  qed
  then have "userSessions (onMessage w b msg) (sessionKeyOf cancel) \<noteq> None"
    using assms(13) by auto
  then have "userSessions (onMessage w' (onMessage w b msg) cancel) (sessionKeyOf cancel) = None"
    using assms(12) by (intro cancel_deletes)
  then show ?thesis using adv assms(13) by simp
qed

lemma ideaBot_eval:
  "userSessions ideaBot ''42'' = Some ideaSession"
  "configFile ideaBot = configFile demoBot"
  "tokenManager ideaBot = demoTokens"
  "sent ideaBot = [(42, IdeaPrompt)]"
  by (simp_all add: ideaBot_def handleInteractiveIdea_def ideaStart_def messageOf_def sessionKeyOf_def
        isGroupChat_def toString_eval demoBot_def getChatConfig_def loadConfig_def hasBoard_def
        ideaSession_def senderName_def js_empty_iff Let_def sendMessage_def demoWorld_def)

lemma ideaMsg_eval:
  "sessionKeyOf ideaMsg = ''42''" "chat_id ideaMsg = 42" "msg_text ideaMsg = Some ideaText"
  "sessionKeyOf cancelMsg = ''42''" "msg_text cancelMsg = Some (js ''/cancel'')"
  "ideaText \<noteq> []" "\<not> startsWith ideaText (js ''/'')" "ideaText \<noteq> js ''/cancel''"
  "isGroupChat ideaMsg = False"
  by (simp_all add: ideaMsg_def cancelMsg_def messageOf_def sessionKeyOf_def isGroupChat_def
        toString_eval ideaText_def js_def startsWith_def)

lemma demo_board:
  "hasBoard (getChatConfig (configFile demoBot) 42)"
  "the (boardId (getChatConfig (configFile demoBot) 42)) = ''B1''"
  by (simp_all add: demoBot_def getChatConfig_def loadConfig_def hasBoard_def toString_eval)

lemma demo_token:
  "fst (getToken demoTokens 42 now) =
     \<lparr>cred_apiKey = js ''KEY0'', cred_token = js ''TOK0'', cred_workspace = js ''Default Workspace''\<rparr>"
  by (simp add: getToken_def loadTokens_def demoTokens_def toString_eval Let_def)

lemma deaf_eval:
  "sendMessage_ok deafWorld c m = False"
  "getBoardLists_result deafWorld k t bd = Some [\<lparr>list_id = ''L1'', list_name = js ''Inbox''\<rparr>]"
  "clock deafWorld = ''2024-01-01T00:00:00.000Z''"
  by (simp_all add: deafWorld_def demoWorld_def)

text \<open>
  C8 as stated fails: with a board selected and one list available, when the
  transport rejects the list prompt the \<open>catch\<close> deletes the session.
\<close>

theorem undelivered_prompt_deletes_session:
  "userSessions ideaBot (sessionKeyOf ideaMsg) = Some ideaSession
   \<and> step ideaSession = ''waiting_for_idea''
   \<and> msg_text ideaMsg = Some ideaText
   \<and> hasBoard (getChatConfig (configFile ideaBot) (chat_id ideaMsg))
   \<and> getBoardLists_result deafWorld (js ''KEY0'') (js ''TOK0'') ''B1''
       = Some [\<lparr>list_id = ''L1'', list_name = js ''Inbox''\<rparr>]
   \<and> userSessions (onMessage deafWorld ideaBot ideaMsg) (sessionKeyOf ideaMsg) = None"
proof -
  have "userSessions (onMessage deafWorld ideaBot ideaMsg) (sessionKeyOf ideaMsg) = None"
    by (simp add: ideaMsg_eval ideaBot_eval demo_board ideaSession_def
        onMessage_def handleMentions_def handleSessionMessage_def ideaTry_def getTrelloService_def
        demo_token sendMessage_def deaf_eval js_empty_iff Let_def case_prod_beta)
  then show ?thesis
    by (simp add: ideaMsg_eval ideaBot_eval demo_board ideaSession_def deaf_eval)
qed

lemma demo_eval:
  "sendMessage_ok demoWorld c m = True"
  "getBoardLists_result demoWorld k t bd = Some [\<lparr>list_id = ''L1'', list_name = js ''Inbox''\<rparr>]"
  "clock demoWorld = ''2024-01-01T00:00:00.000Z''"
  by (simp_all add: demoWorld_def)

lemma broken_eval:
  "sendMessage_ok brokenWorld c m = True"
  "getBoardLists_result brokenWorld k t bd = None"
  "clock brokenWorld = ''2024-01-01T00:00:00.000Z''"
  by (simp_all add: brokenWorld_def demoWorld_def)

theorem idea_session_advances_witness:
  "userSessions ideaBot (sessionKeyOf ideaMsg) = Some ideaSession
   \<and> step ideaSession = ''waiting_for_idea''
   \<and> (\<exists>s'. userSessions (onMessage demoWorld ideaBot ideaMsg) (sessionKeyOf ideaMsg) = Some s'
           \<and> step s' = ''waiting_for_list''
           \<and> map_option idea (data s') = Some (Some ideaText))
   \<and> userSessions (onMessage deafWorld (onMessage demoWorld ideaBot ideaMsg) cancelMsg)
        (sessionKeyOf ideaMsg) = None"
proof -
  have h1: "userSessions ideaBot (sessionKeyOf ideaMsg) = Some ideaSession"
    by (simp add: ideaMsg_eval ideaBot_eval)
  have h2: "stype ideaSession \<noteq> ''setworkspace''" and h3: "step ideaSession = ''waiting_for_idea''"
    and h4: "data ideaSession = Some \<lparr>originalUserId = 42, d_userName = js ''Ann'', idea = None\<rparr>"
    by (simp_all add: ideaSession_def)
  have h5: "msg_text ideaMsg = Some ideaText" and h6: "ideaText \<noteq> []"
    and h7: "\<not> startsWith ideaText (js ''/'')"
    by (simp_all add: ideaMsg_eval)
  have h8: "hasBoard (getChatConfig (configFile ideaBot) (chat_id ideaMsg))"
    by (simp add: ideaMsg_eval ideaBot_eval demo_board)
  have h9: "getBoardLists_result demoWorld
           (cred_apiKey (fst (getToken (tokenManager ideaBot) (chat_id ideaMsg) (clock demoWorld))))
           (cred_token (fst (getToken (tokenManager ideaBot) (chat_id ideaMsg) (clock demoWorld))))
           (the (boardId (getChatConfig (configFile ideaBot) (chat_id ideaMsg))))
         = Some [\<lparr>list_id = ''L1'', list_name = js ''Inbox''\<rparr>]"
    by (simp add: demo_eval)
  have h10: "[\<lparr>list_id = ''L1'', list_name = js ''Inbox''\<rparr>] \<noteq> []" by simp
  have h11: "sendMessage_ok demoWorld (chat_id ideaMsg)
               (SelectList ideaText [\<lparr>list_id = ''L1'', list_name = js ''Inbox''\<rparr>])"
    by (simp add: demo_eval)
  have h12: "msg_text cancelMsg = Some (js ''/cancel'')"
    and h13: "sessionKeyOf cancelMsg = sessionKeyOf ideaMsg"
    by (simp_all add: ideaMsg_eval)
  show ?thesis
    using idea_session_advances[OF h1 h2 h3 h4 h5 h6 h7 h8 h9 h10 h11 h12 h13, of deafWorld] h1 h3
    by blast
qed

lemma ideaTry_broken:
  "snd (ideaTry brokenWorld ideaBot ideaMsg ideaSession) = Raised"
  "sent (fst (ideaTry brokenWorld ideaBot ideaMsg ideaSession)) = [(42, IdeaPrompt)]"
  by (simp_all add: ideaTry_def ideaMsg_eval ideaBot_eval demo_board ideaSession_def
        getTrelloService_def demo_token broken_eval js_empty_iff Let_def case_prod_beta)

lemma setup_deaf:
  "snd (handleSessionMessage deafWorld setupBot notAPair setupSession) = Threw"
  "fst (handleSessionMessage deafWorld setupBot notAPair setupSession) = setupBot"
  by (simp_all add: handleSessionMessage_def handleWorkspaceSetup_def setupSession_def notAPair_def
        messageOf_def parse_eval sendMessage_def deaf_eval Let_def)

theorem session_error_boundary_witness:
  "userSessions ideaBot (sessionKeyOf ideaMsg) = Some ideaSession
   \<and> snd (ideaTry brokenWorld ideaBot ideaMsg ideaSession) = Raised
   \<and> userSessions (fst (handleSessionMessage brokenWorld ideaBot ideaMsg ideaSession))
        (sessionKeyOf ideaMsg) = None
   \<and> sent (fst (handleSessionMessage brokenWorld ideaBot ideaMsg ideaSession))
       = [(42, IdeaPrompt), (42, SessionError)]
   \<and> userSessions setupBot (sessionKeyOf notAPair) = Some setupSession
   \<and> snd (handleSessionMessage deafWorld setupBot notAPair setupSession) = Threw
   \<and> fst (handleSessionMessage deafWorld setupBot notAPair setupSession) = setupBot"
proof -
  have h1: "userSessions ideaBot (sessionKeyOf ideaMsg) = Some ideaSession"
    by (simp add: ideaMsg_eval ideaBot_eval)
  have h2: "userSessions setupBot (sessionKeyOf notAPair) = Some setupSession"
    by (simp add: notAPair_def messageOf_def sessionKeyOf_def isGroupChat_def toString_eval
          setupBot_eval setupSession_def)
  have i: "stype ideaSession \<noteq> ''setworkspace''" "step ideaSession = ''waiting_for_idea''"
    by (simp_all add: ideaSession_def)
  note A = session_error_boundary[OF h1, of brokenWorld]
  note B = session_error_boundary[OF h2, of deafWorld]
  have a: "userSessions (fst (handleSessionMessage brokenWorld ideaBot ideaMsg ideaSession))
             (sessionKeyOf ideaMsg) = None
         \<and> sent (fst (handleSessionMessage brokenWorld ideaBot ideaMsg ideaSession))
       = [(42, IdeaPrompt), (42, SessionError)]"
    using A i ideaTry_broken by (simp add: Let_def broken_eval ideaMsg_eval)
  have b: "fst (handleSessionMessage deafWorld setupBot notAPair setupSession) = setupBot
         \<or> userSessions (fst (handleSessionMessage deafWorld setupBot notAPair setupSession))
              (sessionKeyOf notAPair) = None"
    using B setup_deaf(1) by (simp add: setupSession_def)
  show ?thesis
    using h1 h2 a b ideaTry_broken(1) setup_deaf by simp
qed

end
